theory Spec2Isabelle
  imports Main
begin

text \<open>
  The authentication core of the Swiggy MCP Telegram bot: the session store, the OAuth
  provider handed to the MCP SDK, the client manager, the token manager that resolves
  callbacks, the HTTP callback listener and the tool invoker. Classes become records and
  functions that take the state and return the new one; what a method throws is a value;
  the SDK, the clock and the random generator are arguments.
\<close>

section \<open>Data model\<close>

text \<open>
  \<^verbatim>\<open>SwiggyService = "food" | "instamart" | "dineout"\<close> (mcp.types.ts). The three
  literals are non-empty strings, so a defined service is always truthy.
\<close>

datatype SwiggyService = food | instamart | dineout

text \<open>
  \<^verbatim>\<open>OAuthTokens\<close> and \<^verbatim>\<open>OAuthClientInformationFull\<close> are object types of the MCP SDK.
  Only their being objects matters here (an object is truthy whatever its fields hold).
\<close>

record OAuthTokens =
  access_token :: string
  token_type :: string

record OAuthClientInformationFull =
  client_id :: string

text \<open>\<^verbatim>\<open>UserOAuthState\<close>, \<^verbatim>\<open>UserSession\<close> and \<^verbatim>\<open>PendingOAuthFlow\<close> (user.types.ts).
  Optional fields are options; user and chat ids and timestamps are integers.\<close>

record UserOAuthState =
  tokens :: "OAuthTokens option"
  codeVerifier :: "string option"
  oauth_state :: "string option"
  authenticatedAt :: "int option"

record UserSession =
  telegramUserId :: int
  telegramChatId :: int
  username :: "string option"
  oauthState :: "SwiggyService \<rightharpoonup> UserOAuthState"
  isAuthenticating :: bool
  pendingAuthService :: "SwiggyService option"
  pendingAuthUrl :: "string option"
  createdAt :: int
  lastActiveAt :: int

record PendingOAuthFlow =
  flow_telegramUserId :: int
  flow_chatId :: int
  flow_service :: SwiggyService
  flow_codeVerifier :: string
  flow_state :: string
  flow_createdAt :: int
  expiresAt :: int

section \<open>SessionStore (memory/sessionStore.ts)\<close>

text \<open>
  The three private maps of the class. The key of \<open>clientInfos\<close> is the template string
  \<^verbatim>\<open>`${userId}:${service}`\<close>, built by \<open>userServiceKey\<close> below.
\<close>

record SessionStore =
  sessions :: "int \<rightharpoonup> UserSession"
  pendingFlows :: "string \<rightharpoonup> PendingOAuthFlow"
  clientInfos :: "string \<rightharpoonup> OAuthClientInformationFull"

definition newSessionStore :: SessionStore where
  "newSessionStore = \<lparr>sessions = Map.empty, pendingFlows = Map.empty, clientInfos = Map.empty\<rparr>"

text \<open>Decimal rendering of an integer, as a template string renders an integral number.\<close>

definition digitChar :: "nat \<Rightarrow> char" where
  "digitChar d = char_of (48 + d)"

fun natToString :: "nat \<Rightarrow> string" where
  "natToString n = (if n < 10 then [digitChar n] else natToString (n div 10) @ [digitChar (n mod 10)])"

declare natToString.simps [simp del]

text \<open>Reading a string of digits back as a number: the inverse of \<open>natToString\<close>.\<close>

definition digitsValue :: "string \<Rightarrow> nat" where
  "digitsValue s = foldl (\<lambda>a c. 10 * a + (of_char c - 48)) 0 s"

definition numberToString :: "int \<Rightarrow> string" where
  "numberToString i = (if i < 0 then CHR ''-'' # natToString (nat (- i)) else natToString (nat i))"

fun serviceToString :: "SwiggyService \<Rightarrow> string" where
  "serviceToString food = ''food''"
| "serviceToString instamart = ''instamart''"
| "serviceToString dineout = ''dineout''"

definition userServiceKey :: "int \<Rightarrow> SwiggyService \<Rightarrow> string" where
  "userServiceKey userId service = numberToString userId @ '':'' @ serviceToString service"

text \<open>\<open>falsyString v\<close> is \<^verbatim>\<open>!v\<close> for an optional string: \<^verbatim>\<open>undefined\<close>, \<^verbatim>\<open>null\<close> and the
  empty string are falsy, every other string is truthy.\<close>

definition falsyString :: "string option \<Rightarrow> bool" where
  "falsyString v = (case v of None \<Rightarrow> True | Some s \<Rightarrow> s = [])"

definition emptyOAuthState :: UserOAuthState where
  "emptyOAuthState = \<lparr>tokens = None, codeVerifier = None, oauth_state = None, authenticatedAt = None\<rparr>"

text \<open>\<open>now\<close> is the value of \<^verbatim>\<open>Date.now()\<close>. The session object is returned and the map
  holds the same object, so the model returns the updated session and the updated store.\<close>

definition getOrCreateSession ::
  "int \<Rightarrow> SessionStore \<Rightarrow> int \<Rightarrow> int \<Rightarrow> string option \<Rightarrow> UserSession \<times> SessionStore" where
  "getOrCreateSession now st userId chatId uname =
     (let session = (case sessions st userId of
                       None \<Rightarrow> \<lparr>telegramUserId = userId, telegramChatId = chatId, username = uname,
                                 oauthState = Map.empty, isAuthenticating = False,
                                 pendingAuthService = None, pendingAuthUrl = None,
                                 createdAt = now, lastActiveAt = now\<rparr>
                     | Some s \<Rightarrow> s);
          session' = session\<lparr>lastActiveAt := now\<rparr>
      in (session', st\<lparr>sessions := (sessions st)(userId \<mapsto> session')\<rparr>))"

definition getSession :: "SessionStore \<Rightarrow> int \<Rightarrow> UserSession option" where
  "getSession st userId = sessions st userId"

definition saveTokens :: "int \<Rightarrow> SessionStore \<Rightarrow> int \<Rightarrow> SwiggyService \<Rightarrow> OAuthTokens \<Rightarrow> SessionStore" where
  "saveTokens now st userId service toks =
     (case sessions st userId of
        None \<Rightarrow> st
      | Some session \<Rightarrow>
          (let entry = (case oauthState session service of None \<Rightarrow> emptyOAuthState | Some e \<Rightarrow> e);
               entry' = entry\<lparr>tokens := Some toks, authenticatedAt := Some now\<rparr>;
               session' = session\<lparr>oauthState := (oauthState session)(service \<mapsto> entry'),
                                  isAuthenticating := False,
                                  pendingAuthService := None,
                                  pendingAuthUrl := None\<rparr>
           in st\<lparr>sessions := (sessions st)(userId \<mapsto> session')\<rparr>))"

definition getTokens :: "SessionStore \<Rightarrow> int \<Rightarrow> SwiggyService \<Rightarrow> OAuthTokens option" where
  "getTokens st userId service =
     (case sessions st userId of
        None \<Rightarrow> None
      | Some session \<Rightarrow> (case oauthState session service of None \<Rightarrow> None | Some e \<Rightarrow> tokens e))"

definition clearTokens :: "SessionStore \<Rightarrow> int \<Rightarrow> SwiggyService \<Rightarrow> SessionStore" where
  "clearTokens st userId service =
     (case sessions st userId of
        None \<Rightarrow> st
      | Some session \<Rightarrow>
          (case oauthState session service of
             None \<Rightarrow> st
           | Some e \<Rightarrow>
               st\<lparr>sessions := (sessions st)(userId \<mapsto>
                     session\<lparr>oauthState := (oauthState session)(service := None)\<rparr>)\<rparr>))"

definition saveCodeVerifier :: "SessionStore \<Rightarrow> int \<Rightarrow> SwiggyService \<Rightarrow> string \<Rightarrow> SessionStore" where
  "saveCodeVerifier st userId service verifier =
     (case sessions st userId of
        None \<Rightarrow> st
      | Some session \<Rightarrow>
          (let entry = (case oauthState session service of None \<Rightarrow> emptyOAuthState | Some e \<Rightarrow> e);
               entry' = entry\<lparr>codeVerifier := Some verifier\<rparr>
           in st\<lparr>sessions := (sessions st)(userId \<mapsto>
                    session\<lparr>oauthState := (oauthState session)(service \<mapsto> entry')\<rparr>)\<rparr>))"

definition getCodeVerifier :: "SessionStore \<Rightarrow> int \<Rightarrow> SwiggyService \<Rightarrow> string" where
  "getCodeVerifier st userId service =
     (case sessions st userId of
        None \<Rightarrow> []
      | Some session \<Rightarrow>
          (case oauthState session service of
             None \<Rightarrow> []
           | Some e \<Rightarrow> (case codeVerifier e of None \<Rightarrow> [] | Some v \<Rightarrow> v)))"

definition saveClientInfo ::
  "SessionStore \<Rightarrow> int \<Rightarrow> SwiggyService \<Rightarrow> OAuthClientInformationFull \<Rightarrow> SessionStore" where
  "saveClientInfo st userId service info =
     st\<lparr>clientInfos := (clientInfos st)(userServiceKey userId service \<mapsto> info)\<rparr>"

definition getClientInfo :: "SessionStore \<Rightarrow> int \<Rightarrow> SwiggyService \<Rightarrow> OAuthClientInformationFull option" where
  "getClientInfo st userId service = clientInfos st (userServiceKey userId service)"

definition setPendingAuthUrl :: "SessionStore \<Rightarrow> int \<Rightarrow> SwiggyService \<Rightarrow> string \<Rightarrow> SessionStore" where
  "setPendingAuthUrl st userId service url =
     (case sessions st userId of
        None \<Rightarrow> st
      | Some session \<Rightarrow>
          st\<lparr>sessions := (sessions st)(userId \<mapsto>
                session\<lparr>pendingAuthUrl := Some url,
                        pendingAuthService := Some service,
                        isAuthenticating := True\<rparr>)\<rparr>)"

definition getPendingAuthUrl :: "SessionStore \<Rightarrow> int \<Rightarrow> (string \<times> SwiggyService) option" where
  "getPendingAuthUrl st userId =
     (case sessions st userId of
        None \<Rightarrow> None
      | Some session \<Rightarrow>
          (if falsyString (pendingAuthUrl session) then None
           else (case (pendingAuthUrl session, pendingAuthService session) of
                   (Some url, Some service) \<Rightarrow> Some (url, service)
                 | _ \<Rightarrow> None)))"

definition clearPendingAuth :: "SessionStore \<Rightarrow> int \<Rightarrow> SessionStore" where
  "clearPendingAuth st userId =
     (case sessions st userId of
        None \<Rightarrow> st
      | Some session \<Rightarrow>
          st\<lparr>sessions := (sessions st)(userId \<mapsto>
                session\<lparr>isAuthenticating := False,
                        pendingAuthService := None,
                        pendingAuthUrl := None\<rparr>)\<rparr>)"

definition registerPendingFlow :: "SessionStore \<Rightarrow> string \<Rightarrow> PendingOAuthFlow \<Rightarrow> SessionStore" where
  "registerPendingFlow st state flow = st\<lparr>pendingFlows := (pendingFlows st)(state \<mapsto> flow)\<rparr>"

definition getPendingFlow :: "SessionStore \<Rightarrow> string \<Rightarrow> PendingOAuthFlow option" where
  "getPendingFlow st state = pendingFlows st state"

definition removePendingFlow :: "SessionStore \<Rightarrow> string \<Rightarrow> SessionStore" where
  "removePendingFlow st state = st\<lparr>pendingFlows := (pendingFlows st)(state := None)\<rparr>"

definition isAuthenticated :: "SessionStore \<Rightarrow> int \<Rightarrow> SwiggyService \<Rightarrow> bool" where
  "isAuthenticated st userId service =
     (case sessions st userId of
        None \<Rightarrow> False
      | Some session \<Rightarrow>
          (case oauthState session service of
             None \<Rightarrow> False
           | Some e \<Rightarrow> (case tokens e of None \<Rightarrow> False | Some t \<Rightarrow> True)))"

section \<open>Effects\<close>

text \<open>
  What a component does beyond changing the store is recorded, in the order of the source,
  as a list of effects: a call of the logger (level and message; the structured data of the
  entry is left out), a call of the \<^verbatim>\<open>onAuthComplete\<close> handler with its event, and the calls
  into the MCP SDK (\<^verbatim>\<open>auth\<close>, \<^verbatim>\<open>client.connect\<close>, \<^verbatim>\<open>client.close\<close>, \<^verbatim>\<open>client.callTool\<close>), an
  event published by the callback listener, and a pause of so many milliseconds.
\<close>

datatype LogLevel = LevelDebug | LevelInfo | LevelWarn | LevelError

text \<open>\<^verbatim>\<open>AuthCallbackEvent\<close> (auth/oauthCallbackServer.ts): what the listener publishes.\<close>

record AuthCallbackEvent =
  cb_code :: string
  cb_state :: string

text \<open>\<^verbatim>\<open>AuthCompleteEvent\<close> (auth/tokenManager.ts): what the completion handler receives.\<close>

record AuthCompleteEvent =
  userId :: int
  chatId :: int
  service :: SwiggyService
  success :: bool
  errorMessage :: "string option"

section \<open>SwiggyOAuthProvider (mcp/oauthProvider.ts)\<close>

text \<open>The fields of the provider. The session store it refers to is the one shared store,
  passed to each method; \<open>oauthState\<close> is the optional last constructor argument.\<close>

record SwiggyOAuthProvider =
  provider_userId :: int
  provider_service :: SwiggyService
  provider_callbackPort :: int
  provider_callbackHost :: string
  provider_oauthState :: "string option"

text \<open>The constructor: \<^verbatim>\<open>callbackHost\<close> defaults to \<^verbatim>\<open>"localhost"\<close> when it is not given.\<close>

definition newSwiggyOAuthProvider ::
  "int \<Rightarrow> SwiggyService \<Rightarrow> int \<Rightarrow> string option \<Rightarrow> string option \<Rightarrow> SwiggyOAuthProvider" where
  "newSwiggyOAuthProvider uid svc port host ostate =
     \<lparr>provider_userId = uid, provider_service = svc, provider_callbackPort = port,
      provider_callbackHost = (case host of None \<Rightarrow> ''localhost'' | Some h \<Rightarrow> h),
      provider_oauthState = ostate\<rparr>"

definition redirectUrl :: "SwiggyOAuthProvider \<Rightarrow> string" where
  "redirectUrl p =
     ''http://'' @ provider_callbackHost p @ '':'' @ numberToString (provider_callbackPort p) @ ''/callback''"

definition provider_clientInformation ::
  "SwiggyOAuthProvider \<Rightarrow> SessionStore \<Rightarrow> OAuthClientInformationFull option" where
  "provider_clientInformation p st = getClientInfo st (provider_userId p) (provider_service p)"

definition provider_saveClientInformation ::
  "SwiggyOAuthProvider \<Rightarrow> SessionStore \<Rightarrow> OAuthClientInformationFull \<Rightarrow> SessionStore" where
  "provider_saveClientInformation p st info = saveClientInfo st (provider_userId p) (provider_service p) info"

definition provider_tokens :: "SwiggyOAuthProvider \<Rightarrow> SessionStore \<Rightarrow> OAuthTokens option" where
  "provider_tokens p st = getTokens st (provider_userId p) (provider_service p)"

definition provider_saveTokens ::
  "SwiggyOAuthProvider \<Rightarrow> int \<Rightarrow> SessionStore \<Rightarrow> OAuthTokens \<Rightarrow> SessionStore" where
  "provider_saveTokens p now st toks = saveTokens now st (provider_userId p) (provider_service p) toks"

definition redirectToAuthorization :: "SwiggyOAuthProvider \<Rightarrow> SessionStore \<Rightarrow> string \<Rightarrow> SessionStore" where
  "redirectToAuthorization p st authorizationUrl =
     setPendingAuthUrl st (provider_userId p) (provider_service p) authorizationUrl"

text \<open>\<^verbatim>\<open>state()\<close>: \<^verbatim>\<open>this.oauthState ?? crypto.randomUUID()\<close>. The argument \<open>uuid\<close> is the
  token \<^verbatim>\<open>crypto.randomUUID()\<close> would generate at this call. \<^verbatim>\<open>??\<close> falls through on
  \<^verbatim>\<open>undefined\<close> only, so an empty string that was supplied is returned as it is.\<close>

definition provider_state :: "SwiggyOAuthProvider \<Rightarrow> string \<Rightarrow> string" where
  "provider_state p uuid = (case provider_oauthState p of None \<Rightarrow> uuid | Some s \<Rightarrow> s)"

definition provider_saveCodeVerifier :: "SwiggyOAuthProvider \<Rightarrow> SessionStore \<Rightarrow> string \<Rightarrow> SessionStore" where
  "provider_saveCodeVerifier p st v = saveCodeVerifier st (provider_userId p) (provider_service p) v"

definition provider_codeVerifier :: "SwiggyOAuthProvider \<Rightarrow> SessionStore \<Rightarrow> string" where
  "provider_codeVerifier p st = getCodeVerifier st (provider_userId p) (provider_service p)"

section \<open>The MCP SDK, as the environment\<close>

text \<open>
  \<^verbatim>\<open>StreamableHTTPClientTransport\<close>, \<^verbatim>\<open>Client\<close> and \<^verbatim>\<open>auth\<close> belong to the SDK. A transport is
  the endpoint it was built for and the provider attached to it. A \<^verbatim>\<open>Client\<close> object is
  known by its identity: the number of the \<^verbatim>\<open>new Client(...)\<close> that made it.

  A connection attempt and a token exchange are functions of the environment: given the
  store they return whether the call returned or threw, and the store as the SDK left it
  (the SDK writes to the store through the provider's methods).
\<close>

record Transport =
  transport_url :: string
  authProvider :: SwiggyOAuthProvider

type_synonym Client = nat

datatype ConnectOutcome = Connected | ConnectThrew string

type_synonym ConnectEnv = "Transport \<Rightarrow> SessionStore \<Rightarrow> ConnectOutcome \<times> SessionStore"

datatype AuthResult = AUTHORIZED | REDIRECT

datatype AuthOutcome = AuthReturned AuthResult | AuthThrew string

text \<open>\<^verbatim>\<open>auth(provider, {serverUrl, authorizationCode})\<close>.\<close>

type_synonym AuthEnv =
  "SwiggyOAuthProvider \<Rightarrow> string \<Rightarrow> string \<Rightarrow> SessionStore \<Rightarrow> AuthOutcome \<times> SessionStore"

datatype Effect =
    Log LogLevel string
  | OnAuthComplete AuthCompleteEvent
  | Auth SwiggyOAuthProvider string string
  | Connect Client Transport
  | Close Client
  | Emit AuthCallbackEvent
  | CallTool Client string "(string \<times> string) list"
  | Sleep nat

section \<open>McpClientManager (mcp/mcpClientManager.ts)\<close>

text \<open>The two caches, the configuration, and \<open>clientsMade\<close>, the number of \<^verbatim>\<open>Client\<close>
  objects constructed so far (the identity the next one gets).\<close>

record McpClientManager =
  clients :: "string \<rightharpoonup> Client"
  transports :: "string \<rightharpoonup> Transport"
  endpoints :: "SwiggyService \<Rightarrow> string"
  callbackPort :: int
  callbackHost :: string
  clientsMade :: nat

definition newMcpClientManager ::
  "(SwiggyService \<Rightarrow> string) \<Rightarrow> int \<Rightarrow> string option \<Rightarrow> McpClientManager" where
  "newMcpClientManager eps port host =
     \<lparr>clients = Map.empty, transports = Map.empty, endpoints = eps, callbackPort = port,
      callbackHost = (case host of None \<Rightarrow> ''localhost'' | Some h \<Rightarrow> h), clientsMade = 0\<rparr>"

definition getKey :: "int \<Rightarrow> SwiggyService \<Rightarrow> string" where
  "getKey uid svc = numberToString uid @ '':'' @ serviceToString svc"

datatype McpError = AuthenticationRequiredError int SwiggyService | ConnectError string

text \<open>
  \<^verbatim>\<open>getClient(userId, service)\<close>, run from its call to its return with nothing else
  running while it awaits \<^verbatim>\<open>client.connect\<close>. The result is the client or the error
  thrown, the manager and the store after the call, and the effects. The endpoint is taken
  to be a valid URL (\<^verbatim>\<open>new URL\<close> does not throw). The parts of the method before and
  after the \<^verbatim>\<open>await\<close>, between which other handlers run, follow below as
  \<open>getClient_begin\<close> and \<open>getClient_resume\<close>.
\<close>

definition getClient ::
  "ConnectEnv \<Rightarrow> McpClientManager \<Rightarrow> SessionStore \<Rightarrow> int \<Rightarrow> SwiggyService \<Rightarrow>
     (McpError + Client) \<times> McpClientManager \<times> SessionStore \<times> Effect list" where
  "getClient connect m st uid svc =
     (let key = getKey uid svc in
      case clients m key of
        Some existing \<Rightarrow> (Inr existing, m, st, [])
      | None \<Rightarrow>
          if \<not> isAuthenticated st uid svc then (Inl (AuthenticationRequiredError uid svc), m, st, [])
          else
            (let oauthProvider = newSwiggyOAuthProvider uid svc (callbackPort m) (Some (callbackHost m)) None;
                 transport = \<lparr>transport_url = endpoints m svc, authProvider = oauthProvider\<rparr>;
                 client = clientsMade m;
                 m1 = m\<lparr>clientsMade := Suc (clientsMade m)\<rparr>
             in case connect transport st of
                  (Connected, st') \<Rightarrow>
                    (Inr client,
                     m1\<lparr>clients := (clients m1)(key \<mapsto> client),
                         transports := (transports m1)(key \<mapsto> transport)\<rparr>,
                     st',
                     [Connect client transport, Log LevelInfo ''MCP client connected''])
                | (ConnectThrew err, st') \<Rightarrow>
                    (case getPendingAuthUrl st' uid of
                       Some pendingAuth \<Rightarrow>
                         (Inl (AuthenticationRequiredError uid svc), m1, st',
                          [Connect client transport, Log LevelError ''MCP client connection failed''])
                     | None \<Rightarrow>
                         (Inl (ConnectError err), m1, st',
                          [Connect client transport, Log LevelError ''MCP client connection failed'']))))"

text \<open>
  \<^verbatim>\<open>initiateAuth(userId, service)\<close>: the function has these two parameters, and the provider
  is constructed with the same five arguments as in \<open>getClient\<close>. The result is the
  authorization URL or \<^verbatim>\<open>null\<close>.
\<close>

definition initiateAuth ::
  "ConnectEnv \<Rightarrow> McpClientManager \<Rightarrow> SessionStore \<Rightarrow> int \<Rightarrow> SwiggyService \<Rightarrow>
     string option \<times> McpClientManager \<times> SessionStore \<times> Effect list" where
  "initiateAuth connect m st uid svc =
     (let oauthProvider = newSwiggyOAuthProvider uid svc (callbackPort m) (Some (callbackHost m)) None;
          transport = \<lparr>transport_url = endpoints m svc, authProvider = oauthProvider\<rparr>;
          client = clientsMade m;
          m1 = m\<lparr>clientsMade := Suc (clientsMade m)\<rparr>
      in case connect transport st of
           (Connected, st') \<Rightarrow>
             (let key = getKey uid svc
              in (None,
                  m1\<lparr>clients := (clients m1)(key \<mapsto> client),
                      transports := (transports m1)(key \<mapsto> transport)\<rparr>,
                  st',
                  [Connect client transport]))
         | (ConnectThrew err, st') \<Rightarrow>
             (case getPendingAuthUrl st' uid of
                Some pending \<Rightarrow> (Some (fst pending), m1, st', [Connect client transport])
              | None \<Rightarrow> (None, m1, st', [Connect client transport])))"

text \<open>\<^verbatim>\<open>disconnectClient\<close>: an error of \<^verbatim>\<open>client.close()\<close> is ignored, so closing has no
  outcome to model.\<close>

definition disconnectClient ::
  "McpClientManager \<Rightarrow> int \<Rightarrow> SwiggyService \<Rightarrow> McpClientManager \<times> Effect list" where
  "disconnectClient m uid svc =
     (let key = getKey uid svc in
      case clients m key of
        Some client \<Rightarrow>
          (m\<lparr>clients := (clients m)(key := None), transports := (transports m)(key := None)\<rparr>,
           [Close client])
      | None \<Rightarrow> (m, []))"

definition invalidateClient :: "McpClientManager \<Rightarrow> int \<Rightarrow> SwiggyService \<Rightarrow> McpClientManager" where
  "invalidateClient m uid svc =
     (let key = getKey uid svc in
      m\<lparr>clients := (clients m)(key := None), transports := (transports m)(key := None)\<rparr>)"

subsection \<open>The methods at their awaits\<close>

text \<open>
  The methods are \<^verbatim>\<open>async\<close>. Each runs without interruption from its call to its first
  \<^verbatim>\<open>await\<close> and, once the awaited promise has settled, from there to its return; in
  between, other handlers run and see the manager and the store as the first part left
  them. The handlers of the bot are started without waiting for one another, so calls of
  the manager overlap.

  \<open>getClient_begin\<close> is \<^verbatim>\<open>getClient\<close> up to \<^verbatim>\<open>await client.connect(transport)\<close>: it returns
  at once (a cached client, or the error that the user holds no tokens), or it has
  constructed the client and the transport and waits for the connection.
  \<open>getClient_resume\<close> is the rest, run on the manager and the store as they are when the
  connection attempt has settled with \<open>outcome\<close>.
\<close>

datatype GetClientStep = Returned "McpError + Client" | AwaitConnect Client Transport

definition getClient_begin ::
  "McpClientManager \<Rightarrow> SessionStore \<Rightarrow> int \<Rightarrow> SwiggyService \<Rightarrow>
     GetClientStep \<times> McpClientManager \<times> Effect list" where
  "getClient_begin m st uid svc =
     (let key = getKey uid svc in
      case clients m key of
        Some existing \<Rightarrow> (Returned (Inr existing), m, [])
      | None \<Rightarrow>
          if \<not> isAuthenticated st uid svc then
            (Returned (Inl (AuthenticationRequiredError uid svc)), m, [])
          else
            (let oauthProvider = newSwiggyOAuthProvider uid svc (callbackPort m) (Some (callbackHost m)) None;
                 transport = \<lparr>transport_url = endpoints m svc, authProvider = oauthProvider\<rparr>;
                 client = clientsMade m;
                 m1 = m\<lparr>clientsMade := Suc (clientsMade m)\<rparr>
             in (AwaitConnect client transport, m1, [Connect client transport])))"

definition getClient_resume ::
  "McpClientManager \<Rightarrow> SessionStore \<Rightarrow> int \<Rightarrow> SwiggyService \<Rightarrow> Client \<Rightarrow> Transport \<Rightarrow> ConnectOutcome \<Rightarrow>
     (McpError + Client) \<times> McpClientManager \<times> Effect list" where
  "getClient_resume m st uid svc client transport outcome =
     (let key = getKey uid svc in
      case outcome of
        Connected \<Rightarrow>
          (Inr client,
           m\<lparr>clients := (clients m)(key \<mapsto> client),
              transports := (transports m)(key \<mapsto> transport)\<rparr>,
           [Log LevelInfo ''MCP client connected''])
      | ConnectThrew err \<Rightarrow>
          (case getPendingAuthUrl st uid of
             Some pendingAuth \<Rightarrow>
               (Inl (AuthenticationRequiredError uid svc), m,
                [Log LevelError ''MCP client connection failed''])
           | None \<Rightarrow>
               (Inl (ConnectError err), m, [Log LevelError ''MCP client connection failed''])))"

text \<open>\<^verbatim>\<open>initiateAuth\<close> up to its \<^verbatim>\<open>await client.connect(transport)\<close> (the cache is not
  looked at), and the rest.\<close>

definition initiateAuth_begin ::
  "McpClientManager \<Rightarrow> int \<Rightarrow> SwiggyService \<Rightarrow> Client \<times> Transport \<times> McpClientManager \<times> Effect list" where
  "initiateAuth_begin m uid svc =
     (let oauthProvider = newSwiggyOAuthProvider uid svc (callbackPort m) (Some (callbackHost m)) None;
          transport = \<lparr>transport_url = endpoints m svc, authProvider = oauthProvider\<rparr>;
          client = clientsMade m;
          m1 = m\<lparr>clientsMade := Suc (clientsMade m)\<rparr>
      in (client, transport, m1, [Connect client transport]))"

definition initiateAuth_resume ::
  "McpClientManager \<Rightarrow> SessionStore \<Rightarrow> int \<Rightarrow> SwiggyService \<Rightarrow> Client \<Rightarrow> Transport \<Rightarrow> ConnectOutcome \<Rightarrow>
     string option \<times> McpClientManager" where
  "initiateAuth_resume m st uid svc client transport outcome =
     (case outcome of
        Connected \<Rightarrow>
          (let key = getKey uid svc
           in (None,
               m\<lparr>clients := (clients m)(key \<mapsto> client),
                  transports := (transports m)(key \<mapsto> transport)\<rparr>))
      | ConnectThrew err \<Rightarrow>
          (case getPendingAuthUrl st uid of
             Some pending \<Rightarrow> (Some (fst pending), m)
           | None \<Rightarrow> (None, m)))"

text \<open>\<^verbatim>\<open>disconnectClient\<close> up to its \<^verbatim>\<open>await client.close()\<close> (the client found under the
  key, if any), and the rest, which runs only when a client was found: the two deletions,
  on the manager as it is by then. \<^verbatim>\<open>disconnectUser\<close> is \<^verbatim>\<open>disconnectClient\<close> for the three
  services, one after the other. \<^verbatim>\<open>invalidateClient\<close> has no \<^verbatim>\<open>await\<close>.\<close>

definition disconnectClient_begin ::
  "McpClientManager \<Rightarrow> int \<Rightarrow> SwiggyService \<Rightarrow> Client option \<times> Effect list" where
  "disconnectClient_begin m uid svc =
     (case clients m (getKey uid svc) of
        Some client \<Rightarrow> (Some client, [Close client])
      | None \<Rightarrow> (None, []))"

definition disconnectClient_resume :: "McpClientManager \<Rightarrow> int \<Rightarrow> SwiggyService \<Rightarrow> McpClientManager" where
  "disconnectClient_resume m uid svc =
     (let key = getKey uid svc in
      m\<lparr>clients := (clients m)(key := None), transports := (transports m)(key := None)\<rparr>)"

text \<open>
  The uninterrupted steps that change the manager or the store: a part of one of the
  methods above, by any caller and with any outcome of the connection, or a write to the
  store (by the SDK through a provider during a connection attempt, or by another
  component). Every interleaving of calls is a sequence of such steps; \<open>applySteps\<close> runs
  a sequence. The first part of \<^verbatim>\<open>disconnectClient\<close> changes nothing and is not a step.
\<close>

datatype ManagerStep =
    StepGetClientBegin int SwiggyService
  | StepGetClientResume int SwiggyService Client Transport ConnectOutcome
  | StepInitiateAuthBegin int SwiggyService
  | StepInitiateAuthResume int SwiggyService Client Transport ConnectOutcome
  | StepDisconnectClientResume int SwiggyService
  | StepInvalidateClient int SwiggyService
  | StepStoreWrite "SessionStore \<Rightarrow> SessionStore"

fun applyStep :: "ManagerStep \<Rightarrow> McpClientManager \<times> SessionStore \<Rightarrow> McpClientManager \<times> SessionStore" where
  "applyStep (StepGetClientBegin uid svc) (m, st) = (fst (snd (getClient_begin m st uid svc)), st)"
| "applyStep (StepGetClientResume uid svc client transport outcome) (m, st) =
     (fst (snd (getClient_resume m st uid svc client transport outcome)), st)"
| "applyStep (StepInitiateAuthBegin uid svc) (m, st) = (fst (snd (snd (initiateAuth_begin m uid svc))), st)"
| "applyStep (StepInitiateAuthResume uid svc client transport outcome) (m, st) =
     (snd (initiateAuth_resume m st uid svc client transport outcome), st)"
| "applyStep (StepDisconnectClientResume uid svc) (m, st) = (disconnectClient_resume m uid svc, st)"
| "applyStep (StepInvalidateClient uid svc) (m, st) = (invalidateClient m uid svc, st)"
| "applyStep (StepStoreWrite f) (m, st) = (m, f st)"

fun applySteps ::
  "ManagerStep list \<Rightarrow> McpClientManager \<times> SessionStore \<Rightarrow> McpClientManager \<times> SessionStore" where
  "applySteps [] s = s"
| "applySteps (step # steps) s = applySteps steps (applyStep step s)"

text \<open>What a step returns to a caller of \<^verbatim>\<open>getClient\<close>, with the user and service of the
  call: the first part when it returns at once, and the second part always.\<close>

fun getClientReturn ::
  "ManagerStep \<Rightarrow> McpClientManager \<times> SessionStore \<Rightarrow> (int \<times> SwiggyService \<times> (McpError + Client)) option" where
  "getClientReturn (StepGetClientBegin uid svc) (m, st) =
     (case fst (getClient_begin m st uid svc) of
        Returned r \<Rightarrow> Some (uid, svc, r)
      | AwaitConnect client transport \<Rightarrow> None)"
| "getClientReturn (StepGetClientResume uid svc client transport outcome) (m, st) =
     Some (uid, svc, fst (getClient_resume m st uid svc client transport outcome))"
| "getClientReturn step (m, st) = None"

text \<open>
  The steps that write the cache entry of a user and service: the second part of a
  \<^verbatim>\<open>getClient\<close> or an \<^verbatim>\<open>initiateAuth\<close> for them whose connection succeeded, the deletions of
  a \<^verbatim>\<open>disconnectClient\<close> for them, and an \<^verbatim>\<open>invalidateClient\<close> for them.
  \<open>undisturbed steps uid svc\<close>: none of the steps is one of these.
\<close>

fun disturbs :: "ManagerStep \<Rightarrow> int \<Rightarrow> SwiggyService \<Rightarrow> bool" where
  "disturbs (StepGetClientResume u s client transport outcome) uid svc =
     (u = uid \<and> s = svc \<and> outcome = Connected)"
| "disturbs (StepInitiateAuthResume u s client transport outcome) uid svc =
     (u = uid \<and> s = svc \<and> outcome = Connected)"
| "disturbs (StepDisconnectClientResume u s) uid svc = (u = uid \<and> s = svc)"
| "disturbs (StepInvalidateClient u s) uid svc = (u = uid \<and> s = svc)"
| "disturbs step uid svc = False"

fun undisturbed :: "ManagerStep list \<Rightarrow> int \<Rightarrow> SwiggyService \<Rightarrow> bool" where
  "undisturbed [] uid svc = True"
| "undisturbed (step # steps) uid svc = (\<not> disturbs step uid svc \<and> undisturbed steps uid svc)"

section \<open>TokenManager (auth/tokenManager.ts)\<close>

text \<open>
  The source holds two versions of the class. Both look the flow up, drop an unknown state
  and reject an expired flow in the same way; they differ in what follows the removal of a
  live flow. \<open>now\<close> is the value of \<^verbatim>\<open>Date.now()\<close> at the expiry check.

  The first version (constructor of three arguments): no exchange; the handler is told
  the login succeeded. The authorization code of the event is not used.
\<close>

definition handleCallback_noExchange ::
  "int \<Rightarrow> SessionStore \<Rightarrow> AuthCallbackEvent \<Rightarrow> SessionStore \<times> Effect list" where
  "handleCallback_noExchange now st event =
     (case getPendingFlow st (cb_state event) of
        None \<Rightarrow> (st, [Log LevelWarn ''Received callback for unknown state''])
      | Some flow \<Rightarrow>
          if now > expiresAt flow then
            (removePendingFlow st (cb_state event),
             [OnAuthComplete \<lparr>userId = flow_telegramUserId flow, chatId = flow_chatId flow,
                              service = flow_service flow, success = False,
                              errorMessage = Some ''Authentication flow expired. Please try /login again.''\<rparr>])
          else
            (removePendingFlow st (cb_state event),
             [Log LevelInfo ''OAuth callback received, signaling auth complete'',
              OnAuthComplete \<lparr>userId = flow_telegramUserId flow, chatId = flow_chatId flow,
                              service = flow_service flow, success = True,
                              errorMessage = None\<rparr>]))"

text \<open>The second version (constructor of six arguments, the one \<^verbatim>\<open>index.ts\<close> calls): the
  code is exchanged for tokens by the SDK's \<^verbatim>\<open>auth\<close>, inside \<^verbatim>\<open>try\<close>/\<^verbatim>\<open>catch\<close>.\<close>

record TokenManager =
  tm_endpoints :: "SwiggyService \<Rightarrow> string"
  tm_callbackPort :: int
  tm_callbackHost :: string

definition handleCallback_exchange ::
  "TokenManager \<Rightarrow> AuthEnv \<Rightarrow> int \<Rightarrow> SessionStore \<Rightarrow> AuthCallbackEvent \<Rightarrow> SessionStore \<times> Effect list" where
  "handleCallback_exchange tm auth now st event =
     (case getPendingFlow st (cb_state event) of
        None \<Rightarrow> (st, [Log LevelWarn ''Received callback for unknown state''])
      | Some flow \<Rightarrow>
          if now > expiresAt flow then
            (removePendingFlow st (cb_state event),
             [OnAuthComplete \<lparr>userId = flow_telegramUserId flow, chatId = flow_chatId flow,
                              service = flow_service flow, success = False,
                              errorMessage = Some ''Authentication flow expired. Please try /login again.''\<rparr>])
          else
            (let st1 = removePendingFlow st (cb_state event);
                 oauthProvider = newSwiggyOAuthProvider (flow_telegramUserId flow) (flow_service flow)
                                   (tm_callbackPort tm) (Some (tm_callbackHost tm)) None;
                 serverUrl = tm_endpoints tm (flow_service flow)
             in case auth oauthProvider serverUrl (cb_code event) st1 of
                  (AuthReturned AUTHORIZED, st2) \<Rightarrow>
                    (st2,
                     [Auth oauthProvider serverUrl (cb_code event),
                      Log LevelInfo ''OAuth token exchange successful'',
                      OnAuthComplete \<lparr>userId = flow_telegramUserId flow, chatId = flow_chatId flow,
                                      service = flow_service flow, success = True,
                                      errorMessage = None\<rparr>])
                | (AuthReturned REDIRECT, st2) \<Rightarrow>
                    (st2,
                     [Auth oauthProvider serverUrl (cb_code event),
                      Log LevelWarn ''OAuth token exchange returned unexpected result'',
                      OnAuthComplete \<lparr>userId = flow_telegramUserId flow, chatId = flow_chatId flow,
                                      service = flow_service flow, success = False,
                                      errorMessage = Some ''Token exchange failed. Please try /login again.''\<rparr>])
                | (AuthThrew err, st2) \<Rightarrow>
                    (st2,
                     [Auth oauthProvider serverUrl (cb_code event),
                      Log LevelError ''OAuth token exchange failed'',
                      OnAuthComplete \<lparr>userId = flow_telegramUserId flow, chatId = flow_chatId flow,
                                      service = flow_service flow, success = False,
                                      errorMessage = Some ''Token exchange failed. Please try /login again.''\<rparr>])))"

section \<open>OAuthCallbackServer (auth/oauthCallbackServer.ts)\<close>

text \<open>
  A request is taken after \<^verbatim>\<open>new URL(req.url ?? "/", ...)\<close> has parsed it: the path and the
  query parameters in their order. \<^verbatim>\<open>searchParams.get\<close> returns the first value of a name.
  The method of the request is not read by the source. A response is the status, the
  content type and the body.
\<close>

record ParsedUrl =
  pathname :: string
  searchParams :: "(string \<times> string) list"

record Response =
  statusCode :: nat
  contentType :: string
  body :: string

definition searchParams_get :: "ParsedUrl \<Rightarrow> string \<Rightarrow> string option" where
  "searchParams_get url name = map_of (searchParams url) name"

text \<open>The two pages of \<^verbatim>\<open>handleCallback\<close>, character by character.\<close>

definition redirectPage :: string where
  \<open>redirectPage =
     ''<!DOCTYPE html>\<newline>'' @
     ''<html>\<newline>'' @
     ''<head><title>Swiggy MCP Bot - Authenticating</title></head>\<newline>'' @
     ''<body style="font-family: sans-serif; text-align: center; padding: 50px;">\<newline>'' @
     ''  <h1>Completing authentication...</h1>\<newline>'' @
     ''  <p id="status">Processing, please wait.</p>\<newline>'' @
     ''  <script>\<newline>'' @
     ''    (function() {\<newline>'' @
     ''      var qp = new URLSearchParams(window.location.search);\<newline>'' @
     ''      var hp = new URLSearchParams(window.location.hash.substring(1));\<newline>'' @
     ''      var code = qp.get("code") || hp.get("code");\<newline>'' @
     ''      var state = qp.get("state") || hp.get("state");\<newline>'' @
     ''      if (code && state) {\<newline>'' @
     ''        window.location.replace(\<newline>'' @
     ''          window.location.pathname + "?code=" + encodeURIComponent(code) + "&state=" + encodeURIComponent(state)\<newline>'' @
     ''        );\<newline>'' @
     ''        return;\<newline>'' @
     ''      }\<newline>'' @
     ''      document.getElementById("status").textContent =\<newline>'' @
     ''        "Authentication failed: missing code or state parameter. Please try /login again.";\<newline>'' @
     ''    })();\<newline>'' @
     ''  </script>\<newline>'' @
     ''</body>\<newline>'' @
     ''</html>''\<close>

definition confirmationPage :: string where
  \<open>confirmationPage =
     ''<!DOCTYPE html>\<newline>'' @
     ''<html>\<newline>'' @
     ''<head><title>Swiggy MCP Bot - Authentication</title></head>\<newline>'' @
     ''<body style="font-family: sans-serif; text-align: center; padding: 50px;">\<newline>'' @
     ''  <h1>Authentication Successful!</h1>\<newline>'' @
     ''  <p>You can close this tab and return to Telegram.</p>\<newline>'' @
     ''</body>\<newline>'' @
     ''</html>''\<close>

text \<open>\<^verbatim>\<open>handleCallback\<close> with the fragment page: \<^verbatim>\<open>!code || !state\<close> holds when a parameter
  is absent or empty. Past that test both values are strings; the last case of the
  \<open>case\<close> is there for totality and is never reached.\<close>

definition handleCallback :: "ParsedUrl \<Rightarrow> Response \<times> Effect list" where
  "handleCallback url =
     (let code = searchParams_get url ''code'';
          state = searchParams_get url ''state''
      in if falsyString code \<or> falsyString state then
           (\<lparr>statusCode = 200, contentType = ''text/html'', body = redirectPage\<rparr>, [])
         else
           (case (code, state) of
              (Some c, Some s) \<Rightarrow>
                (\<lparr>statusCode = 200, contentType = ''text/html'', body = confirmationPage\<rparr>,
                 [Log LevelInfo ''Received OAuth callback'', Emit \<lparr>cb_code = c, cb_state = s\<rparr>])
            | _ \<Rightarrow> (\<lparr>statusCode = 200, contentType = ''text/html'', body = redirectPage\<rparr>, [])))"

definition handleRequest :: "ParsedUrl \<Rightarrow> Response \<times> Effect list" where
  "handleRequest url =
     (if pathname url = ''/health'' then
        (\<lparr>statusCode = 200, contentType = ''text/plain'', body = ''OK''\<rparr>, [])
      else if pathname url = ''/callback'' then handleCallback url
      else (\<lparr>statusCode = 404, contentType = ''text/plain'', body = ''Not found''\<rparr>, []))"

text \<open>The other version of the class in the source: the same \<^verbatim>\<open>handleRequest\<close>, and a
  \<^verbatim>\<open>handleCallback\<close> that answers a missing parameter with status 400.\<close>

definition handleCallback_status400 :: "ParsedUrl \<Rightarrow> Response \<times> Effect list" where
  "handleCallback_status400 url =
     (let code = searchParams_get url ''code'';
          state = searchParams_get url ''state''
      in if falsyString code \<or> falsyString state then
           (\<lparr>statusCode = 400, contentType = ''text/html'',
             body = ''<h1>Missing code or state parameter</h1>''\<rparr>, [])
         else
           (case (code, state) of
              (Some c, Some s) \<Rightarrow>
                (\<lparr>statusCode = 200, contentType = ''text/html'', body = confirmationPage\<rparr>,
                 [Log LevelInfo ''Received OAuth callback'', Emit \<lparr>cb_code = c, cb_state = s\<rparr>])
            | _ \<Rightarrow> (\<lparr>statusCode = 400, contentType = ''text/html'',
                      body = ''<h1>Missing code or state parameter</h1>''\<rparr>, [])))"

definition handleRequest_status400 :: "ParsedUrl \<Rightarrow> Response \<times> Effect list" where
  "handleRequest_status400 url =
     (if pathname url = ''/health'' then
        (\<lparr>statusCode = 200, contentType = ''text/plain'', body = ''OK''\<rparr>, [])
      else if pathname url = ''/callback'' then handleCallback_status400 url
      else (\<lparr>statusCode = 404, contentType = ''text/plain'', body = ''Not found''\<rparr>, []))"

section \<open>ToolInvoker (mcp/toolInvoker.ts)\<close>

text \<open>
  The result of \<^verbatim>\<open>client.callTool\<close> (SDK) and the \<^verbatim>\<open>ToolCallResult\<close> the invoker returns.
  What \<^verbatim>\<open>callTool\<close> throws is an \<^verbatim>\<open>Error\<close> with its message, or another value with its
  \<^verbatim>\<open>String(err)\<close>. The environment gives the outcome of a call from the client, the tool, the
  arguments and the number of calls made before it.
\<close>

record ContentItem =
  item_type :: string
  item_text :: "string option"
  item_data :: "string option"
  item_mimeType :: "string option"

record CallToolResult =
  result_content :: "ContentItem list option"
  result_isError :: "bool option"

record ToolCallResult =
  tcr_service :: SwiggyService
  tcr_toolName :: string
  tcr_content :: "ContentItem list"
  tcr_isError :: bool

datatype Thrown = ErrorObject string | OtherValue string

datatype CallOutcome = CallReturned CallToolResult | CallThrew Thrown

type_synonym CallToolEnv = "Client \<Rightarrow> string \<Rightarrow> (string \<times> string) list \<Rightarrow> nat \<Rightarrow> CallOutcome"

text \<open>\<^verbatim>\<open>SwiggyMcpError\<close> (utils/errors.ts).\<close>

record SwiggyMcpError =
  err_message :: string
  err_service :: SwiggyService
  err_toolName :: "string option"
  isRetryable :: bool

text \<open>\<^verbatim>\<open>String.prototype.includes\<close>: the second string occurs in the first.\<close>

fun startsWith :: "string \<Rightarrow> string \<Rightarrow> bool" where
  "startsWith s [] = True"
| "startsWith [] (p # ps) = False"
| "startsWith (c # cs) (p # ps) = (c = p \<and> startsWith cs ps)"

fun str_includes :: "string \<Rightarrow> string \<Rightarrow> bool" where
  "str_includes [] p = (p = [])"
| "str_includes (c # cs) p = (startsWith (c # cs) p \<or> str_includes cs p)"

definition thrownMessage :: "Thrown \<Rightarrow> string" where
  "thrownMessage err = (case err of ErrorObject m \<Rightarrow> m | OtherValue s \<Rightarrow> s)"

definition classifyRetryable :: "string \<Rightarrow> bool" where
  "classifyRetryable message =
     (str_includes message ''timeout'' \<or> str_includes message ''ECONNRESET'' \<or> str_includes message ''503'')"

text \<open>\<^verbatim>\<open>invoke\<close>: \<open>n\<close> is the number of \<^verbatim>\<open>callTool\<close> calls made so far; the result carries the
  new count.\<close>

definition invoke ::
  "CallToolEnv \<Rightarrow> nat \<Rightarrow> Client \<Rightarrow> SwiggyService \<Rightarrow> string \<Rightarrow> (string \<times> string) list \<Rightarrow>
     (SwiggyMcpError + ToolCallResult) \<times> nat \<times> Effect list" where
  "invoke callTool n client svc toolName args =
     (case callTool client toolName args n of
        CallReturned result \<Rightarrow>
          (let content = (case result_content result of None \<Rightarrow> [] | Some c \<Rightarrow> c);
               isError = (result_isError result = Some True)
           in (Inr \<lparr>tcr_service = svc, tcr_toolName = toolName, tcr_content = content, tcr_isError = isError\<rparr>,
               Suc n,
               [Log LevelInfo ''Invoking MCP tool'', CallTool client toolName args] @
               (if isError then [Log LevelWarn ''MCP tool returned error''] else [])))
      | CallThrew err \<Rightarrow>
          (let message = thrownMessage err
           in (Inl \<lparr>err_message = message, err_service = svc, err_toolName = Some toolName,
                    isRetryable = classifyRetryable message\<rparr>,
               Suc n,
               [Log LevelInfo ''Invoking MCP tool'', CallTool client toolName args])))"

text \<open>\<^verbatim>\<open>invokeWithRetry\<close>: every error of \<open>invoke\<close> is a \<^verbatim>\<open>SwiggyMcpError\<close>, so the test of the
  \<^verbatim>\<open>catch\<close> is its \<open>isRetryable\<close> flag.\<close>

definition invokeWithRetry ::
  "CallToolEnv \<Rightarrow> nat \<Rightarrow> Client \<Rightarrow> SwiggyService \<Rightarrow> string \<Rightarrow> (string \<times> string) list \<Rightarrow>
     (SwiggyMcpError + ToolCallResult) \<times> nat \<times> Effect list" where
  "invokeWithRetry callTool n client svc toolName args =
     (case invoke callTool n client svc toolName args of
        (Inr result, n1, es) \<Rightarrow> (Inr result, n1, es)
      | (Inl err, n1, es) \<Rightarrow>
          if isRetryable err then
            (case invoke callTool n1 client svc toolName args of
               (r2, n2, es2) \<Rightarrow> (r2, n2, es @ [Log LevelInfo ''Retrying MCP tool call'', Sleep 1000] @ es2))
          else (Inl err, n1, es))"

text \<open>The number of \<^verbatim>\<open>callTool\<close> calls among the effects.\<close>

fun isCallTool :: "Effect \<Rightarrow> bool" where
  "isCallTool (CallTool c name args) = True"
| "isCallTool e = False"

definition callToolCount :: "Effect list \<Rightarrow> nat" where
  "callToolCount es = length (filter isCallTool es)"

section \<open>Example inputs\<close>

text \<open>Concrete stores, managers and environments, used where a statement is run on an
  input.\<close>

definition exampleTokens :: OAuthTokens where
  "exampleTokens = \<lparr>access_token = ''at-1'', token_type = ''Bearer''\<rparr>"

text \<open>User 7 has written to the bot once, from chat 70.\<close>

definition storeWithUser7 :: SessionStore where
  "storeWithUser7 = snd (getOrCreateSession 1000 newSessionStore 7 70 None)"

text \<open>A login of user 7 for the food service, begun at time 1000 with state \<open>S1\<close> and a
  window of five minutes.\<close>

definition exampleFlow :: PendingOAuthFlow where
  "exampleFlow = \<lparr>flow_telegramUserId = 7, flow_chatId = 70, flow_service = food,
                   flow_codeVerifier = [], flow_state = ''S1'', flow_createdAt = 1000,
                   expiresAt = 301000\<rparr>"

definition storeWithFlow :: SessionStore where
  "storeWithFlow = registerPendingFlow storeWithUser7 ''S1'' exampleFlow"

definition storeWithTokens :: SessionStore where
  "storeWithTokens = saveTokens 2000 storeWithUser7 7 food exampleTokens"

definition exampleEndpoints :: "SwiggyService \<Rightarrow> string" where
  "exampleEndpoints s = ''https://mcp.example/'' @ serviceToString s"

definition exampleTokenManager :: TokenManager where
  "exampleTokenManager =
     \<lparr>tm_endpoints = exampleEndpoints, tm_callbackPort = 3000, tm_callbackHost = ''localhost''\<rparr>"

definition exampleManager :: McpClientManager where
  "exampleManager = newMcpClientManager exampleEndpoints 3000 None"

text \<open>An exchange that succeeds (the SDK saves the tokens through the provider), and one
  that is refused.\<close>

definition authSucceeds :: AuthEnv where
  "authSucceeds p url c st = (AuthReturned AUTHORIZED, provider_saveTokens p 2000 st exampleTokens)"

definition authFails :: AuthEnv where
  "authFails p url c st = (AuthThrew ''invalid_grant'', st)"

text \<open>A connection attempt without tokens: the SDK asks the provider for the state
  (\<open>uuid\<close> is what \<^verbatim>\<open>crypto.randomUUID()\<close> would return), hands the authorization URL that
  carries it to \<^verbatim>\<open>redirectToAuthorization\<close>, and throws. And one that connects.\<close>

definition connectRedirects :: "string \<Rightarrow> ConnectEnv" where
  "connectRedirects uuid tr st =
     (ConnectThrew ''Unauthorized'',
      redirectToAuthorization (authProvider tr) st
        (''https://auth.example/authorize?state='' @ provider_state (authProvider tr) uuid))"

definition connectSucceeds :: ConnectEnv where
  "connectSucceeds tr st = (Connected, st)"

definition connectFails :: ConnectEnv where
  "connectFails tr st = (ConnectThrew ''ECONNREFUSED'', st)"

text \<open>The manager after user 7, who holds tokens for the food service, got a client; and
  that manager after a login for the same user and service was started once more and the
  connection attempt of \<^verbatim>\<open>initiateAuth\<close> succeeded.\<close>

definition managerWithClient :: McpClientManager where
  "managerWithClient = fst (snd (getClient connectSucceeds exampleManager storeWithTokens 7 food))"

definition managerAfterLogin :: McpClientManager where
  "managerAfterLogin = fst (snd (initiateAuth connectSucceeds managerWithClient storeWithTokens 7 food))"

text \<open>The transport that \<open>exampleManager\<close> builds for a user and the food service.\<close>

definition exampleTransport :: "int \<Rightarrow> Transport" where
  "exampleTransport uid =
     \<lparr>transport_url = exampleEndpoints food,
      authProvider = newSwiggyOAuthProvider uid food 3000 (Some ''localhost'') None\<rparr>"

text \<open>Two calls of \<^verbatim>\<open>getClient\<close> for user 7 and the food service that overlap: both start
  before either connection is there, then the connection of the first (client 0) and
  that of the second (client 1) succeed.\<close>

definition overlappingCalls :: "ManagerStep list" where
  "overlappingCalls =
     [StepGetClientBegin 7 food,
      StepGetClientBegin 7 food,
      StepGetClientResume 7 food 0 (exampleTransport 7) Connected,
      StepGetClientResume 7 food 1 (exampleTransport 7) Connected]"

text \<open>Steps that leave the client of user 7 for the food service alone: a further call
  for them, a call of user 8 that connects, the loss of the tokens, a login for them
  whose connection attempt fails, an overlapping call for them whose connection fails, and
  evictions under other keys.\<close>

definition exampleSteps :: "ManagerStep list" where
  "exampleSteps =
     [StepGetClientBegin 7 food,
      StepStoreWrite (\<lambda>st. saveTokens 3000 (snd (getOrCreateSession 3000 st 8 80 None)) 8 food exampleTokens),
      StepGetClientBegin 8 food,
      StepGetClientResume 8 food 1 (exampleTransport 8) Connected,
      StepStoreWrite (\<lambda>st. clearTokens st 7 food),
      StepInitiateAuthBegin 7 food,
      StepInitiateAuthResume 7 food 2 (exampleTransport 7) (ConnectThrew ''Unauthorized''),
      StepGetClientResume 7 food 3 (exampleTransport 7) (ConnectThrew ''ECONNRESET''),
      StepInvalidateClient 7 instamart,
      StepDisconnectClientResume 8 food]"

definition exampleUrl :: "string \<Rightarrow> (string \<times> string) list \<Rightarrow> ParsedUrl" where
  "exampleUrl path params = \<lparr>pathname = path, searchParams = params\<rparr>"

definition exampleResult :: CallToolResult where
  "exampleResult = \<lparr>result_content = Some [], result_isError = None\<rparr>"

text \<open>A tool that times out on the first call only, one that rejects every call, and one
  that is unavailable at every call.\<close>

definition callToolTimeoutOnce :: CallToolEnv where
  "callToolTimeoutOnce client tool args k =
     (if k = 0 then CallThrew (ErrorObject ''Request timeout'') else CallReturned exampleResult)"

definition callToolRejects :: CallToolEnv where
  "callToolRejects client tool args k = CallThrew (ErrorObject ''Invalid params'')"

definition callToolUnavailable :: CallToolEnv where
  "callToolUnavailable client tool args k = CallThrew (ErrorObject ''HTTP 503'')"

section \<open>Facts about the examples\<close>

lemma sessions_storeWithUser7: "sessions storeWithUser7 7 \<noteq> None"
  by (simp add: storeWithUser7_def getOrCreateSession_def newSessionStore_def Let_def)

lemma getPendingFlow_storeWithFlow: "getPendingFlow storeWithFlow ''S1'' = Some exampleFlow"
  by (simp add: storeWithFlow_def registerPendingFlow_def getPendingFlow_def)

lemma getPendingFlow_storeWithFlow_unknown: "getPendingFlow storeWithFlow ''unknown-xyz'' = None"
  by (simp add: storeWithFlow_def registerPendingFlow_def getPendingFlow_def storeWithUser7_def
      getOrCreateSession_def newSessionStore_def Let_def)

lemma isAuthenticated_storeWithTokens: "isAuthenticated storeWithTokens 7 food"
  by (simp add: storeWithTokens_def saveTokens_def isAuthenticated_def storeWithUser7_def
      getOrCreateSession_def newSessionStore_def Let_def)

lemma not_isAuthenticated_newSessionStore: "\<not> isAuthenticated newSessionStore 7 food"
  by (simp add: isAuthenticated_def newSessionStore_def)

lemma clients_exampleManager: "clients exampleManager k = None"
  by (simp add: exampleManager_def newMcpClientManager_def)

section \<open>The credential store\<close>

text \<open>
  Claim C6, as stated: for every user and service, \<open>saveTokens\<close> followed by
  \<open>isAuthenticated\<close> is true, and \<open>clearTokens\<close> followed by \<open>isAuthenticated\<close> is
  false. The first half fails for a user without a session: \<open>saveTokens\<close> returns at its
  guard \<^verbatim>\<open>if (!session) return\<close>, and the user stays unauthenticated.
\<close>

theorem C6_saveTokens_without_session_counterexample:
  "isAuthenticated (saveTokens 1000 newSessionStore 7 food exampleTokens) 7 food = False"
  by (simp add: isAuthenticated_def saveTokens_def newSessionStore_def)

text \<open>
  Claim C6, amended: for every user that has a session and every service, \<open>saveTokens\<close>
  followed by \<open>isAuthenticated\<close> is true; for every user and service, with or without a
  session, \<open>clearTokens\<close> followed by \<open>isAuthenticated\<close> is false.
\<close>

theorem C6_saveTokens_clearTokens_isAuthenticated:
  "(sessions st uid \<noteq> None \<longrightarrow> isAuthenticated (saveTokens now st uid svc toks) uid svc) \<and>
   \<not> isAuthenticated (clearTokens st uid svc) uid svc"
  by (auto simp: isAuthenticated_def saveTokens_def clearTokens_def Let_def split: option.splits)

theorem C6_saveTokens_clearTokens_witness:
  "sessions storeWithUser7 7 \<noteq> None \<and>
   isAuthenticated (saveTokens 2000 storeWithUser7 7 food exampleTokens) 7 food \<and>
   \<not> isAuthenticated (clearTokens (saveTokens 2000 storeWithUser7 7 food exampleTokens) 7 food) 7 food"
  using C6_saveTokens_clearTokens_isAuthenticated [of storeWithUser7 7 2000 food exampleTokens]
        C6_saveTokens_clearTokens_isAuthenticated
          [of "saveTokens 2000 storeWithUser7 7 food exampleTokens" 7 2000 food exampleTokens]
        sessions_storeWithUser7
  by simp

text \<open>
  Claim C10: for a user without a session, \<open>saveTokens\<close>, \<open>saveCodeVerifier\<close> and
  \<open>setPendingAuthUrl\<close> return the store as it was (the functions are total: nothing is
  thrown), and the user is not authenticated after \<open>saveTokens\<close>.
\<close>

theorem C10_writes_without_session_are_noops:
  "sessions st uid = None \<Longrightarrow>
     saveTokens now st uid svc toks = st \<and>
     saveCodeVerifier st uid svc verifier = st \<and>
     setPendingAuthUrl st uid svc url = st \<and>
     \<not> isAuthenticated (saveTokens now st uid svc toks) uid svc"
  by (simp add: saveTokens_def saveCodeVerifier_def setPendingAuthUrl_def isAuthenticated_def)

theorem C10_writes_without_session_witness:
  "sessions newSessionStore 7 = None \<and>
   saveTokens 1000 newSessionStore 7 food exampleTokens = newSessionStore \<and>
   saveCodeVerifier newSessionStore 7 food ''verifier'' = newSessionStore \<and>
   setPendingAuthUrl newSessionStore 7 food ''https://auth.example/authorize'' = newSessionStore \<and>
   \<not> isAuthenticated (saveTokens 1000 newSessionStore 7 food exampleTokens) 7 food"
proof -
  have h: "sessions newSessionStore 7 = None"
    by (simp add: newSessionStore_def)
  show ?thesis
    using h C10_writes_without_session_are_noops
      [OF h, of 1000 food exampleTokens "''verifier''" "''https://auth.example/authorize''"]
    by blast
qed

section \<open>The flow coordinator\<close>

text \<open>
  Claim C3: when the state of the event is that of a pending flow and \<open>now > expiresAt\<close>,
  both versions of \<open>handleCallback\<close> remove the record and call the handler once, with
  \<open>success = False\<close> and the message that the flow expired. The effects hold nothing
  else: no second notification, no successful one, no call of \<^verbatim>\<open>auth\<close> (the result is
  the same for every exchange environment).
\<close>

theorem C3_expired_flow_rejected:
  "getPendingFlow st (cb_state event) = Some flow \<Longrightarrow> now > expiresAt flow \<Longrightarrow>
     handleCallback_noExchange now st event =
       (removePendingFlow st (cb_state event),
        [OnAuthComplete \<lparr>userId = flow_telegramUserId flow, chatId = flow_chatId flow,
                         service = flow_service flow, success = False,
                         errorMessage = Some ''Authentication flow expired. Please try /login again.''\<rparr>]) \<and>
     handleCallback_exchange tm auth now st event =
       (removePendingFlow st (cb_state event),
        [OnAuthComplete \<lparr>userId = flow_telegramUserId flow, chatId = flow_chatId flow,
                         service = flow_service flow, success = False,
                         errorMessage = Some ''Authentication flow expired. Please try /login again.''\<rparr>]) \<and>
     getPendingFlow (removePendingFlow st (cb_state event)) (cb_state event) = None"
  by (simp add: handleCallback_noExchange_def handleCallback_exchange_def getPendingFlow_def removePendingFlow_def)

theorem C3_expired_flow_witness:
  "getPendingFlow storeWithFlow ''S1'' = Some exampleFlow \<and> (601000 :: int) > expiresAt exampleFlow \<and>
   handleCallback_noExchange 601000 storeWithFlow \<lparr>cb_code = ''code-1'', cb_state = ''S1''\<rparr> =
     (removePendingFlow storeWithFlow ''S1'',
      [OnAuthComplete \<lparr>userId = 7, chatId = 70, service = food, success = False,
                       errorMessage = Some ''Authentication flow expired. Please try /login again.''\<rparr>]) \<and>
   handleCallback_exchange exampleTokenManager authSucceeds 601000 storeWithFlow
       \<lparr>cb_code = ''code-1'', cb_state = ''S1''\<rparr> =
     (removePendingFlow storeWithFlow ''S1'',
      [OnAuthComplete \<lparr>userId = 7, chatId = 70, service = food, success = False,
                       errorMessage = Some ''Authentication flow expired. Please try /login again.''\<rparr>]) \<and>
   getPendingFlow (removePendingFlow storeWithFlow ''S1'') ''S1'' = None"
proof -
  have h1: "getPendingFlow storeWithFlow (cb_state \<lparr>cb_code = ''code-1'', cb_state = ''S1''\<rparr>) = Some exampleFlow"
    by (simp add: getPendingFlow_storeWithFlow)
  have h2: "(601000 :: int) > expiresAt exampleFlow"
    by (simp add: exampleFlow_def)
  show ?thesis
    using C3_expired_flow_rejected [OF h1 h2, of exampleTokenManager authSucceeds] h2
      getPendingFlow_storeWithFlow
    by (simp add: exampleFlow_def)
qed

text \<open>
  Claim C4: when the state of the event is that of no pending flow, both versions of
  \<open>handleCallback\<close> return the store as it was; the only effect is the warning of the
  logger. No handler is called.
\<close>

theorem C4_unknown_state_dropped:
  "getPendingFlow st (cb_state event) = None \<Longrightarrow>
     handleCallback_noExchange now st event = (st, [Log LevelWarn ''Received callback for unknown state'']) \<and>
     handleCallback_exchange tm auth now st event = (st, [Log LevelWarn ''Received callback for unknown state''])"
  by (simp add: handleCallback_noExchange_def handleCallback_exchange_def)

theorem C4_unknown_state_witness:
  "getPendingFlow storeWithFlow ''unknown-xyz'' = None \<and>
   handleCallback_noExchange 2000 storeWithFlow \<lparr>cb_code = ''code-1'', cb_state = ''unknown-xyz''\<rparr> =
     (storeWithFlow, [Log LevelWarn ''Received callback for unknown state'']) \<and>
   handleCallback_exchange exampleTokenManager authSucceeds 2000 storeWithFlow
       \<lparr>cb_code = ''code-1'', cb_state = ''unknown-xyz''\<rparr> =
     (storeWithFlow, [Log LevelWarn ''Received callback for unknown state''])"
proof -
  have h: "getPendingFlow storeWithFlow (cb_state \<lparr>cb_code = ''code-1'', cb_state = ''unknown-xyz''\<rparr>) = None"
    by (simp add: getPendingFlow_storeWithFlow_unknown)
  show ?thesis
    using C4_unknown_state_dropped [OF h, of 2000 exampleTokenManager authSucceeds]
      getPendingFlow_storeWithFlow_unknown
    by simp
qed

text \<open>
  Claim C1, on the version of \<open>handleCallback\<close> without an exchange: a callback for the
  live flow \<open>S1\<close> removes the flow and tells the handler the login succeeded. Nothing was
  exchanged (no \<open>Auth\<close> effect; the code of the event is not read) and the user holds no
  tokens afterwards.
\<close>

theorem C1_noExchange_reports_success_without_exchange:
  "handleCallback_noExchange 2000 storeWithFlow \<lparr>cb_code = ''code-1'', cb_state = ''S1''\<rparr> =
     (removePendingFlow storeWithFlow ''S1'',
      [Log LevelInfo ''OAuth callback received, signaling auth complete'',
       OnAuthComplete \<lparr>userId = 7, chatId = 70, service = food, success = True, errorMessage = None\<rparr>]) \<and>
   isAuthenticated (removePendingFlow storeWithFlow ''S1'') 7 food = False"
proof -
  have "handleCallback_noExchange 2000 storeWithFlow \<lparr>cb_code = ''code-1'', cb_state = ''S1''\<rparr> =
     (removePendingFlow storeWithFlow ''S1'',
      [Log LevelInfo ''OAuth callback received, signaling auth complete'',
       OnAuthComplete \<lparr>userId = 7, chatId = 70, service = food, success = True, errorMessage = None\<rparr>])"
    by (simp add: handleCallback_noExchange_def getPendingFlow_storeWithFlow exampleFlow_def)
  moreover have "isAuthenticated (removePendingFlow storeWithFlow ''S1'') 7 food = False"
    by (simp add: isAuthenticated_def removePendingFlow_def storeWithFlow_def registerPendingFlow_def
        storeWithUser7_def getOrCreateSession_def newSessionStore_def Let_def)
  ultimately show ?thesis by blast
qed

text \<open>
  The version with the exchange does what claim C1 says. For a pending flow that has not
  expired, the exchange runs on the store from which the flow is already removed, with the
  provider of the flow's user and service and the code of the event. The effects are the
  exchange, one entry of the log, and one notification, in this order. The notification
  goes to the user, chat and service of the flow; it reports success exactly when
  \<^verbatim>\<open>auth\<close> returned \<^verbatim>\<open>"AUTHORIZED"\<close>, and otherwise carries the message to retry the login.
\<close>

theorem handleCallback_exchange_live_flow:
  "getPendingFlow st (cb_state event) = Some flow \<Longrightarrow> \<not> now > expiresAt flow \<Longrightarrow>
   auth (newSwiggyOAuthProvider (flow_telegramUserId flow) (flow_service flow)
           (tm_callbackPort tm) (Some (tm_callbackHost tm)) None)
        (tm_endpoints tm (flow_service flow)) (cb_code event)
        (removePendingFlow st (cb_state event)) = (outcome, st2) \<Longrightarrow>
   \<exists>level msg.
     handleCallback_exchange tm auth now st event =
       (st2,
        [Auth (newSwiggyOAuthProvider (flow_telegramUserId flow) (flow_service flow)
                 (tm_callbackPort tm) (Some (tm_callbackHost tm)) None)
              (tm_endpoints tm (flow_service flow)) (cb_code event),
         Log level msg,
         OnAuthComplete \<lparr>userId = flow_telegramUserId flow, chatId = flow_chatId flow,
                         service = flow_service flow,
                         success = (outcome = AuthReturned AUTHORIZED),
                         errorMessage = (if outcome = AuthReturned AUTHORIZED then None
                                         else Some ''Token exchange failed. Please try /login again.'')\<rparr>])"
  by (auto simp: handleCallback_exchange_def Let_def split: AuthOutcome.splits AuthResult.splits)

theorem handleCallback_exchange_live_flow_witness:
  "getPendingFlow storeWithFlow ''S1'' = Some exampleFlow \<and> \<not> (2000 :: int) > expiresAt exampleFlow \<and>
   (\<exists>level msg.
      handleCallback_exchange exampleTokenManager authSucceeds 2000 storeWithFlow
          \<lparr>cb_code = ''code-1'', cb_state = ''S1''\<rparr> =
        (saveTokens 2000 (removePendingFlow storeWithFlow ''S1'') 7 food exampleTokens,
         [Auth (newSwiggyOAuthProvider 7 food 3000 (Some ''localhost'') None) (exampleEndpoints food) ''code-1'',
          Log level msg,
          OnAuthComplete \<lparr>userId = 7, chatId = 70, service = food, success = True, errorMessage = None\<rparr>])) \<and>
   (\<exists>level msg.
      handleCallback_exchange exampleTokenManager authFails 2000 storeWithFlow
          \<lparr>cb_code = ''code-1'', cb_state = ''S1''\<rparr> =
        (removePendingFlow storeWithFlow ''S1'',
         [Auth (newSwiggyOAuthProvider 7 food 3000 (Some ''localhost'') None) (exampleEndpoints food) ''code-1'',
          Log level msg,
          OnAuthComplete \<lparr>userId = 7, chatId = 70, service = food, success = False,
                          errorMessage = Some ''Token exchange failed. Please try /login again.''\<rparr>]))"
proof -
  let ?ev = "\<lparr>cb_code = ''code-1'', cb_state = ''S1''\<rparr>"
  have h1: "getPendingFlow storeWithFlow (cb_state ?ev) = Some exampleFlow"
    by (simp add: getPendingFlow_storeWithFlow)
  have h2: "\<not> (2000 :: int) > expiresAt exampleFlow"
    by (simp add: exampleFlow_def)
  have a1: "authSucceeds (newSwiggyOAuthProvider (flow_telegramUserId exampleFlow) (flow_service exampleFlow)
                (tm_callbackPort exampleTokenManager) (Some (tm_callbackHost exampleTokenManager)) None)
              (tm_endpoints exampleTokenManager (flow_service exampleFlow)) (cb_code ?ev)
              (removePendingFlow storeWithFlow (cb_state ?ev)) =
            (AuthReturned AUTHORIZED, saveTokens 2000 (removePendingFlow storeWithFlow ''S1'') 7 food exampleTokens)"
    by (simp add: authSucceeds_def provider_saveTokens_def newSwiggyOAuthProvider_def exampleFlow_def)
  have a2: "authFails (newSwiggyOAuthProvider (flow_telegramUserId exampleFlow) (flow_service exampleFlow)
                (tm_callbackPort exampleTokenManager) (Some (tm_callbackHost exampleTokenManager)) None)
              (tm_endpoints exampleTokenManager (flow_service exampleFlow)) (cb_code ?ev)
              (removePendingFlow storeWithFlow (cb_state ?ev)) =
            (AuthThrew ''invalid_grant'', removePendingFlow storeWithFlow ''S1'')"
    by (simp add: authFails_def)
  have c: "flow_telegramUserId exampleFlow = 7" "flow_chatId exampleFlow = 70" "flow_service exampleFlow = food"
    "tm_callbackPort exampleTokenManager = 3000" "tm_callbackHost exampleTokenManager = ''localhost''"
    "tm_endpoints exampleTokenManager = exampleEndpoints"
    by (simp_all add: exampleFlow_def exampleTokenManager_def)
  show ?thesis
    using handleCallback_exchange_live_flow [where auth = authSucceeds, OF h1 h2 a1]
          handleCallback_exchange_live_flow [where auth = authFails, OF h1 h2 a2]
          h2 getPendingFlow_storeWithFlow
    by (simp add: c)
qed

section \<open>The remote client manager\<close>

text \<open>
  Claim C5: with no cached client for the key and a user who is not authenticated for the
  service, \<open>getClient\<close> fails with \<open>AuthenticationRequiredError\<close>; the manager and the
  store are as before (nothing is cached, no \<^verbatim>\<open>Client\<close> is constructed, no flow is
  registered) and there is no effect (no connection attempt). With a cached client for the
  key, that client is returned, whatever the store holds, and nothing else happens.
\<close>

theorem C5_getClient_requires_tokens:
  "(clients m (getKey uid svc) = None \<and> \<not> isAuthenticated st uid svc \<longrightarrow>
      getClient connect m st uid svc = (Inl (AuthenticationRequiredError uid svc), m, st, [])) \<and>
   (clients m (getKey uid svc) = Some c \<longrightarrow>
      getClient connect m st uid svc = (Inr c, m, st, []))"
  by (simp add: getClient_def Let_def)

theorem C5_getClient_witness:
  "clients exampleManager (getKey 7 food) = None \<and> \<not> isAuthenticated newSessionStore 7 food \<and>
   getClient connectSucceeds exampleManager newSessionStore 7 food =
     (Inl (AuthenticationRequiredError 7 food), exampleManager, newSessionStore, []) \<and>
   getClient connectFails (exampleManager\<lparr>clients := (clients exampleManager)(getKey 7 food \<mapsto> 4)\<rparr>)
       newSessionStore 7 food =
     (Inr 4, exampleManager\<lparr>clients := (clients exampleManager)(getKey 7 food \<mapsto> 4)\<rparr>, newSessionStore, [])"
  using C5_getClient_requires_tokens [of exampleManager 7 food newSessionStore connectSucceeds]
        C5_getClient_requires_tokens
          [of "exampleManager\<lparr>clients := (clients exampleManager)(getKey 7 food \<mapsto> 4)\<rparr>" 7 food newSessionStore
              connectFails 4]
        clients_exampleManager [of "getKey 7 food"] not_isAuthenticated_newSessionStore
  by simp

subsection \<open>Cache keys\<close>

text \<open>The key of a user and service determines both: the decimal rendering of the user
  id holds no colon and can be read back, and the three service names differ.\<close>

lemma of_char_digitChar: "d < 10 \<Longrightarrow> of_char (digitChar d) = (48 + d :: nat)"
  by (simp add: digitChar_def)

lemma digitsValue_natToString: "digitsValue (natToString n) = n"
proof (induction n rule: natToString.induct)
  case (1 n)
  show ?case
  proof (cases "n < 10")
    case True
    then show ?thesis
      by (simp add: natToString.simps [of n] digitsValue_def of_char_digitChar)
  next
    case False
    with 1 have ih: "digitsValue (natToString (n div 10)) = n div 10" by simp
    have "digitsValue (natToString n) = 10 * digitsValue (natToString (n div 10)) + n mod 10"
      using False by (simp add: natToString.simps [of n] digitsValue_def of_char_digitChar)
    with ih show ?thesis by simp
  qed
qed

lemma natToString_inj: "natToString a = natToString b \<Longrightarrow> a = b"
  by (metis digitsValue_natToString)

lemma natToString_chars: "c \<in> set (natToString n) \<Longrightarrow> \<exists>d < 10. c = digitChar d"
proof (induction n rule: natToString.induct)
  case (1 n)
  show ?case
  proof (cases "n < 10")
    case True
    with 1(2) show ?thesis by (auto simp: natToString.simps [of n])
  next
    case False
    have m: "n mod 10 < 10" by simp
    from False 1(2) have "c \<in> set (natToString (n div 10)) \<or> c = digitChar (n mod 10)"
      by (auto simp: natToString.simps [of n])
    then show ?thesis
    proof
      assume "c \<in> set (natToString (n div 10))"
      with 1(1) False show ?thesis by simp
    next
      assume "c = digitChar (n mod 10)"
      with m show ?thesis by blast
    qed
  qed
qed

lemma digitChar_not_separator:
  assumes "d < 10"
  shows "digitChar d \<noteq> CHR '':''" and "digitChar d \<noteq> CHR ''-''"
proof -
  have e: "of_char (digitChar d) = (48 + d :: nat)"
    using assms by (rule of_char_digitChar)
  show "digitChar d \<noteq> CHR '':''"
  proof
    assume "digitChar d = CHR '':''"
    with e have "(48 + d :: nat) = of_char (CHR '':'')" by simp
    with assms show False by simp
  qed
  show "digitChar d \<noteq> CHR ''-''"
  proof
    assume "digitChar d = CHR ''-''"
    with e have "(48 + d :: nat) = of_char (CHR ''-'')" by simp
    then show False by simp
  qed
qed

lemma natToString_no_separator:
  "CHR '':'' \<notin> set (natToString n)" "CHR ''-'' \<notin> set (natToString n)"
proof -
  show "CHR '':'' \<notin> set (natToString n)"
    using natToString_chars [of "CHR '':''" n] digitChar_not_separator(1) by metis
  show "CHR ''-'' \<notin> set (natToString n)"
    using natToString_chars [of "CHR ''-''" n] digitChar_not_separator(2) by metis
qed

lemma natToString_nonempty: "natToString n \<noteq> []"
  by (simp add: natToString.simps [of n])

lemma numberToString_inj: "numberToString a = numberToString b \<Longrightarrow> a = b"
proof -
  assume eq: "numberToString a = numberToString b"
  have hd_neg: "hd (numberToString i) = CHR ''-''" if "i < 0" for i
    using that by (simp add: numberToString_def)
  have hd_pos: "hd (numberToString i) \<noteq> CHR ''-''" if "\<not> i < 0" for i
  proof -
    have "hd (natToString (nat i)) \<in> set (natToString (nat i))"
      using natToString_nonempty by simp
    with natToString_no_separator(2) [of "nat i"] that show ?thesis
      by (auto simp: numberToString_def)
  qed
  show "a = b"
  proof (cases "a < 0")
    case True
    with eq hd_neg hd_pos have "b < 0" by metis
    with True eq have "natToString (nat (- a)) = natToString (nat (- b))"
      by (simp add: numberToString_def)
    then have "nat (- a) = nat (- b)" by (rule natToString_inj)
    with True \<open>b < 0\<close> show ?thesis by simp
  next
    case False
    with eq hd_neg hd_pos have "\<not> b < 0" by metis
    with False eq have "natToString (nat a) = natToString (nat b)"
      by (simp add: numberToString_def)
    then have "nat a = nat b" by (rule natToString_inj)
    with False \<open>\<not> b < 0\<close> show ?thesis by simp
  qed
qed

lemma numberToString_no_colon: "CHR '':'' \<notin> set (numberToString i)"
  using natToString_no_separator(1) by (simp add: numberToString_def)

lemma split_at_colon:
  "CHR '':'' \<notin> set a \<Longrightarrow> CHR '':'' \<notin> set b \<Longrightarrow> a @ CHR '':'' # x = b @ CHR '':'' # y \<Longrightarrow> a = b \<and> x = y"
proof (induction a arbitrary: b)
  case Nil
  then show ?case by (cases b) auto
next
  case (Cons c a)
  then show ?case by (cases b) auto
qed

lemma serviceToString_inj: "serviceToString s = serviceToString s' \<Longrightarrow> s = s'"
  by (cases s; cases s') simp_all

lemma getKey_inj: "getKey uid svc = getKey uid' svc' \<Longrightarrow> uid = uid' \<and> svc = svc'"
proof -
  assume "getKey uid svc = getKey uid' svc'"
  then have "numberToString uid @ CHR '':'' # serviceToString svc =
             numberToString uid' @ CHR '':'' # serviceToString svc'"
    by (simp add: getKey_def)
  with split_at_colon [OF numberToString_no_colon numberToString_no_colon]
  have "numberToString uid = numberToString uid' \<and> serviceToString svc = serviceToString svc'"
    by blast
  then show ?thesis
    using numberToString_inj serviceToString_inj by blast
qed

subsection \<open>The methods and their parts\<close>

text \<open>Run back to back, with the connection attempt in between and nothing else, the
  parts of a method are the method.\<close>

lemma getClient_begin_resume:
  "getClient connect m st uid svc =
     (case getClient_begin m st uid svc of
        (Returned r, m1, es) \<Rightarrow> (r, m1, st, es)
      | (AwaitConnect client transport, m1, es1) \<Rightarrow>
          (case connect transport st of
             (outcome, st') \<Rightarrow>
               (case getClient_resume m1 st' uid svc client transport outcome of
                  (r, m2, es2) \<Rightarrow> (r, m2, st', es1 @ es2))))"
  by (simp add: getClient_def getClient_begin_def getClient_resume_def Let_def
      split: option.splits prod.splits ConnectOutcome.splits)

lemma initiateAuth_begin_resume:
  "initiateAuth connect m st uid svc =
     (case initiateAuth_begin m uid svc of
        (client, transport, m1, es) \<Rightarrow>
          (case connect transport st of
             (outcome, st') \<Rightarrow>
               (case initiateAuth_resume m1 st' uid svc client transport outcome of
                  (r, m2) \<Rightarrow> (r, m2, st', es))))"
  by (simp add: initiateAuth_def initiateAuth_begin_def initiateAuth_resume_def Let_def
      split: option.splits prod.splits ConnectOutcome.splits)

lemma disconnectClient_begin_resume:
  "disconnectClient m uid svc =
     (case disconnectClient_begin m uid svc of
        (Some client, es) \<Rightarrow> (disconnectClient_resume m uid svc, es)
      | (None, es) \<Rightarrow> (m, es))"
  by (simp add: disconnectClient_def disconnectClient_begin_def disconnectClient_resume_def Let_def
      split: option.splits)

subsection \<open>What leaves a cached client in place\<close>

lemma getClient_begin_keeps_entry:
  "clients m k = Some c \<Longrightarrow> clients (fst (snd (getClient_begin m st u s))) k = Some c"
  by (simp add: getClient_begin_def Let_def split: option.splits)

lemma getClient_resume_keeps_entry:
  "clients m k = Some c \<Longrightarrow> getKey u s \<noteq> k \<or> outcome \<noteq> Connected \<Longrightarrow>
   clients (fst (snd (getClient_resume m st u s client transport outcome))) k = Some c"
  by (auto simp: getClient_resume_def Let_def split: option.splits ConnectOutcome.splits)

lemma initiateAuth_begin_keeps_entry:
  "clients m k = Some c \<Longrightarrow> clients (fst (snd (snd (initiateAuth_begin m u s)))) k = Some c"
  by (simp add: initiateAuth_begin_def Let_def)

lemma initiateAuth_resume_keeps_entry:
  "clients m k = Some c \<Longrightarrow> getKey u s \<noteq> k \<or> outcome \<noteq> Connected \<Longrightarrow>
   clients (snd (initiateAuth_resume m st u s client transport outcome)) k = Some c"
  by (auto simp: initiateAuth_resume_def Let_def split: option.splits ConnectOutcome.splits)

lemma disconnectClient_resume_keeps_entry:
  "clients m k = Some c \<Longrightarrow> getKey u s \<noteq> k \<Longrightarrow> clients (disconnectClient_resume m u s) k = Some c"
  by (simp add: disconnectClient_resume_def Let_def)

lemma invalidateClient_keeps_entry:
  "clients m k = Some c \<Longrightarrow> getKey u s \<noteq> k \<Longrightarrow> clients (invalidateClient m u s) k = Some c"
  by (simp add: invalidateClient_def Let_def)

lemma applyStep_keeps_entry:
  assumes "clients m (getKey uid svc) = Some c" and "\<not> disturbs step uid svc"
  shows "clients (fst (applyStep step (m, st))) (getKey uid svc) = Some c"
proof (cases step)
  case (StepGetClientBegin u s)
  with assms(1) show ?thesis
    by (simp add: getClient_begin_keeps_entry)
next
  case (StepGetClientResume u s client transport outcome)
  with assms(2) have "getKey u s \<noteq> getKey uid svc \<or> outcome \<noteq> Connected"
    using getKey_inj by auto
  with assms(1) StepGetClientResume show ?thesis
    by (simp add: getClient_resume_keeps_entry)
next
  case (StepInitiateAuthBegin u s)
  with assms(1) show ?thesis
    by (simp add: initiateAuth_begin_keeps_entry)
next
  case (StepInitiateAuthResume u s client transport outcome)
  with assms(2) have "getKey u s \<noteq> getKey uid svc \<or> outcome \<noteq> Connected"
    using getKey_inj by auto
  with assms(1) StepInitiateAuthResume show ?thesis
    by (simp add: initiateAuth_resume_keeps_entry)
next
  case (StepDisconnectClientResume u s)
  with assms(2) have "getKey u s \<noteq> getKey uid svc"
    using getKey_inj by auto
  with assms(1) StepDisconnectClientResume show ?thesis
    by (simp add: disconnectClient_resume_keeps_entry)
next
  case (StepInvalidateClient u s)
  with assms(2) have "getKey u s \<noteq> getKey uid svc"
    using getKey_inj by auto
  with assms(1) StepInvalidateClient show ?thesis
    by (simp add: invalidateClient_keeps_entry)
next
  case (StepStoreWrite f)
  with assms(1) show ?thesis by simp
qed

lemma applySteps_keeps_entry:
  "clients (fst s) (getKey uid svc) = Some c \<Longrightarrow> undisturbed steps uid svc \<Longrightarrow>
   clients (fst (applySteps steps s)) (getKey uid svc) = Some c"
proof (induction steps arbitrary: s)
  case Nil
  then show ?case by simp
next
  case (Cons step steps)
  obtain m st where s: "s = (m, st)" by (cases s)
  from Cons.prems s have "clients (fst (applyStep step s)) (getKey uid svc) = Some c"
    using applyStep_keeps_entry [of m uid svc c step st] by simp
  with Cons.IH [of "applyStep step s"] Cons.prems(2) show ?case by simp
qed

text \<open>A step that returns a client to a caller of \<^verbatim>\<open>getClient\<close> leaves that client in the
  cache: it was found there, or it has just been stored.\<close>

lemma getClientReturn_caches:
  assumes "getClientReturn step (m, st) = Some (uid, svc, Inr c)"
  shows "clients (fst (applyStep step (m, st))) (getKey uid svc) = Some c"
proof (cases step)
  case (StepGetClientBegin u s)
  with assms show ?thesis
    by (auto simp: getClient_begin_def Let_def split: option.splits if_splits GetClientStep.splits)
next
  case (StepGetClientResume u s client transport outcome)
  with assms show ?thesis
    by (auto simp: getClient_resume_def Let_def split: option.splits ConnectOutcome.splits)
qed (use assms in simp_all)

lemma getClient_example:
  "getClient connectSucceeds exampleManager storeWithTokens 7 food =
     (Inr 0,
      exampleManager\<lparr>clientsMade := 1,
        clients := [getKey 7 food \<mapsto> 0],
        transports := [getKey 7 food \<mapsto>
          \<lparr>transport_url = exampleEndpoints food,
           authProvider = newSwiggyOAuthProvider 7 food 3000 (Some ''localhost'') None\<rparr>]\<rparr>,
      storeWithTokens,
      [Connect 0 \<lparr>transport_url = exampleEndpoints food,
                   authProvider = newSwiggyOAuthProvider 7 food 3000 (Some ''localhost'') None\<rparr>,
       Log LevelInfo ''MCP client connected''])"
  by (simp add: getClient_def Let_def clients_exampleManager isAuthenticated_storeWithTokens
      connectSucceeds_def)
     (simp add: exampleManager_def newMcpClientManager_def)

lemma managerWithClient_eq:
  "managerWithClient = exampleManager\<lparr>clientsMade := 1,
        clients := [getKey 7 food \<mapsto> 0],
        transports := [getKey 7 food \<mapsto>
          \<lparr>transport_url = exampleEndpoints food,
           authProvider = newSwiggyOAuthProvider 7 food 3000 (Some ''localhost'') None\<rparr>]\<rparr>"
  by (simp add: managerWithClient_def getClient_example)

text \<open>
  Claim C7, as stated: after a \<open>getClient\<close> that succeeded, a second \<open>getClient\<close> with no
  \<^verbatim>\<open>invalidateClient\<close> or \<^verbatim>\<open>disconnectClient\<close> in between returns the same client. It fails
  when, in between, a login for the same user and service is started and the connection
  attempt of \<open>initiateAuth\<close> succeeds (the user holds tokens): \<open>initiateAuth\<close> stores its
  new client under the key, and the second \<open>getClient\<close> returns client 1, not client 0.
\<close>

theorem C7_initiateAuth_replaces_client_counterexample:
  "fst (getClient connectSucceeds exampleManager storeWithTokens 7 food) = Inr 0 \<and>
   managerWithClient = fst (snd (getClient connectSucceeds exampleManager storeWithTokens 7 food)) \<and>
   managerAfterLogin = fst (snd (initiateAuth connectSucceeds managerWithClient storeWithTokens 7 food)) \<and>
   fst (getClient connectSucceeds managerAfterLogin storeWithTokens 7 food) = Inr 1"
proof -
  have "clients managerAfterLogin (getKey 7 food) = Some 1"
    by (simp add: managerAfterLogin_def initiateAuth_def connectSucceeds_def Let_def managerWithClient_eq)
  then have "getClient connectSucceeds managerAfterLogin storeWithTokens 7 food =
      (Inr 1, managerAfterLogin, storeWithTokens, [])"
    by (simp add: getClient_def Let_def)
  then show ?thesis
    by (simp add: getClient_example managerWithClient_def managerAfterLogin_def)
qed

text \<open>
  The same happens without any \<^verbatim>\<open>initiateAuth\<close> when two calls of \<open>getClient\<close> for one
  user and service overlap: both miss the cache, the first to connect returns client 0,
  the second then stores client 1 over it, and a later \<open>getClient\<close> returns client 1.
\<close>

lemma overlapping_getClient_replaces_client:
  "getClientReturn (StepGetClientResume 7 food 0 (exampleTransport 7) Connected)
     (applySteps (take 2 overlappingCalls) (exampleManager, storeWithTokens)) = Some (7, food, Inr 0) \<and>
   getClient connectSucceeds
     (fst (applySteps overlappingCalls (exampleManager, storeWithTokens)))
     (snd (applySteps overlappingCalls (exampleManager, storeWithTokens))) 7 food =
     (Inr 1, fst (applySteps overlappingCalls (exampleManager, storeWithTokens)), storeWithTokens, [])"
proof -
  have "clients (fst (applySteps overlappingCalls (exampleManager, storeWithTokens))) (getKey 7 food) = Some 1"
    and "snd (applySteps overlappingCalls (exampleManager, storeWithTokens)) = storeWithTokens"
    by (simp_all add: overlappingCalls_def getClient_resume_def Let_def)
  then have "getClient connectSucceeds
     (fst (applySteps overlappingCalls (exampleManager, storeWithTokens)))
     (snd (applySteps overlappingCalls (exampleManager, storeWithTokens))) 7 food =
     (Inr 1, fst (applySteps overlappingCalls (exampleManager, storeWithTokens)), storeWithTokens, [])"
    by (simp add: getClient_def Let_def)
  moreover have "getClientReturn (StepGetClientResume 7 food 0 (exampleTransport 7) Connected)
     (applySteps (take 2 overlappingCalls) (exampleManager, storeWithTokens)) = Some (7, food, Inr 0)"
    by (simp add: overlappingCalls_def getClient_resume_def Let_def split: prod.splits)
  ultimately show ?thesis by blast
qed

text \<open>
  Claim C7, amended: once a step has returned a client to a caller of \<open>getClient\<close>, then
  whatever steps of whatever calls run after it and whatever is written to the store, as
  long as none of the steps writes the cache entry of that user and service (no
  \<^verbatim>\<open>invalidateClient\<close> and no deletion of a \<^verbatim>\<open>disconnectClient\<close> or \<^verbatim>\<open>disconnectUser\<close> for them,
  and no \<^verbatim>\<open>initiateAuth\<close> and no other, overlapping \<^verbatim>\<open>getClient\<close> for them whose connection
  succeeds): the cache still holds the returned client under the key, and a further
  \<open>getClient\<close> returns that client in its first part, before any \<^verbatim>\<open>await\<close>, for every store
  and network; it changes nothing and makes no connection. The cache is a map from keys,
  so the entry under a key is the only one.
\<close>

theorem C7_cached_client_returned_until_entry_written:
  "getClientReturn step s0 = Some (uid, svc, Inr c) \<Longrightarrow>
   undisturbed steps uid svc \<Longrightarrow>
   applySteps steps (applyStep step s0) = (m2, st2) \<Longrightarrow>
     clients m2 (getKey uid svc) = Some c \<and>
     getClient_begin m2 st2 uid svc = (Returned (Inr c), m2, []) \<and>
     getClient connect m2 st2 uid svc = (Inr c, m2, st2, [])"
proof -
  assume first: "getClientReturn step s0 = Some (uid, svc, Inr c)"
    and quiet: "undisturbed steps uid svc"
    and run: "applySteps steps (applyStep step s0) = (m2, st2)"
  obtain m st where s0: "s0 = (m, st)" by (cases s0)
  from first s0 have "clients (fst (applyStep step s0)) (getKey uid svc) = Some c"
    using getClientReturn_caches [of step m st uid svc c] by simp
  then have "clients (fst (applySteps steps (applyStep step s0))) (getKey uid svc) = Some c"
    using quiet by (rule applySteps_keeps_entry)
  with run have cached: "clients m2 (getKey uid svc) = Some c" by simp
  then have "getClient_begin m2 st2 uid svc = (Returned (Inr c), m2, [])"
    by (simp add: getClient_begin_def Let_def)
  moreover from cached have "getClient connect m2 st2 uid svc = (Inr c, m2, st2, [])"
    by (simp add: getClient_def Let_def)
  ultimately show ?thesis using cached by simp
qed

lemma undisturbed_exampleSteps: "undisturbed exampleSteps 7 food"
  by (simp add: exampleSteps_def)

theorem C7_cached_client_witness:
  "getClientReturn (StepGetClientResume 7 food 0 (exampleTransport 7) Connected)
     (applyStep (StepGetClientBegin 7 food) (exampleManager, storeWithTokens)) = Some (7, food, Inr 0) \<and>
   undisturbed exampleSteps 7 food \<and>
   clients (fst (applySteps exampleSteps
       (applyStep (StepGetClientResume 7 food 0 (exampleTransport 7) Connected)
          (applyStep (StepGetClientBegin 7 food) (exampleManager, storeWithTokens))))) (getKey 7 food) = Some 0 \<and>
   fst (getClient connectFails
     (fst (applySteps exampleSteps
       (applyStep (StepGetClientResume 7 food 0 (exampleTransport 7) Connected)
          (applyStep (StepGetClientBegin 7 food) (exampleManager, storeWithTokens)))))
     (snd (applySteps exampleSteps
       (applyStep (StepGetClientResume 7 food 0 (exampleTransport 7) Connected)
          (applyStep (StepGetClientBegin 7 food) (exampleManager, storeWithTokens))))) 7 food) = Inr 0"
proof -
  let ?s0 = "applyStep (StepGetClientBegin 7 food) (exampleManager, storeWithTokens)"
  let ?step = "StepGetClientResume 7 food 0 (exampleTransport 7) Connected"
  have first: "getClientReturn ?step ?s0 = Some (7, food, Inr 0)"
    by (simp add: getClient_resume_def Let_def split: prod.splits)
  have run: "applySteps exampleSteps (applyStep ?step ?s0) =
      (fst (applySteps exampleSteps (applyStep ?step ?s0)),
       snd (applySteps exampleSteps (applyStep ?step ?s0)))"
    by simp
  show ?thesis
    using C7_cached_client_returned_until_entry_written
            [OF first undisturbed_exampleSteps run, of connectFails]
          first undisturbed_exampleSteps
    by simp
qed

text \<open>
  Claim C2, on \<open>initiateAuth\<close> as the source has it. A login of user 7 for the food
  service is registered under the state \<open>S1\<close>; the call site passes the state as a third
  argument, which the function does not declare. The provider handed to the transport has
  no \<open>oauthState\<close>, so its \<^verbatim>\<open>state()\<close> is the generated token, here \<open>U2\<close>: the URL sent to
  the user carries \<open>U2\<close>, and no pending flow is registered under \<open>U2\<close>.
\<close>

theorem C2_initiateAuth_provider_generates_its_own_state:
  "initiateAuth (connectRedirects ''U2'') exampleManager storeWithFlow 7 food =
     (Some ''https://auth.example/authorize?state=U2'',
      exampleManager\<lparr>clientsMade := 1\<rparr>,
      setPendingAuthUrl storeWithFlow 7 food ''https://auth.example/authorize?state=U2'',
      [Connect 0 \<lparr>transport_url = exampleEndpoints food,
                   authProvider = \<lparr>provider_userId = 7, provider_service = food,
                                    provider_callbackPort = 3000, provider_callbackHost = ''localhost'',
                                    provider_oauthState = None\<rparr>\<rparr>]) \<and>
   provider_state \<lparr>provider_userId = 7, provider_service = food,
                   provider_callbackPort = 3000, provider_callbackHost = ''localhost'',
                   provider_oauthState = None\<rparr> ''U2'' = ''U2'' \<and>
   getPendingFlow storeWithFlow ''S1'' = Some exampleFlow \<and>
   getPendingFlow (setPendingAuthUrl storeWithFlow 7 food ''https://auth.example/authorize?state=U2'') ''U2'' = None"
proof -
  have "initiateAuth (connectRedirects ''U2'') exampleManager storeWithFlow 7 food =
     (Some ''https://auth.example/authorize?state=U2'',
      exampleManager\<lparr>clientsMade := 1\<rparr>,
      setPendingAuthUrl storeWithFlow 7 food ''https://auth.example/authorize?state=U2'',
      [Connect 0 \<lparr>transport_url = exampleEndpoints food,
                   authProvider = \<lparr>provider_userId = 7, provider_service = food,
                                    provider_callbackPort = 3000, provider_callbackHost = ''localhost'',
                                    provider_oauthState = None\<rparr>\<rparr>])"
    by (simp add: initiateAuth_def connectRedirects_def exampleManager_def newMcpClientManager_def
        newSwiggyOAuthProvider_def redirectToAuthorization_def provider_state_def Let_def
        getPendingAuthUrl_def setPendingAuthUrl_def falsyString_def
        storeWithFlow_def registerPendingFlow_def storeWithUser7_def getOrCreateSession_def
        newSessionStore_def)
  moreover have "provider_state \<lparr>provider_userId = 7, provider_service = food,
                   provider_callbackPort = 3000, provider_callbackHost = ''localhost'',
                   provider_oauthState = None\<rparr> ''U2'' = ''U2''"
    by (simp add: provider_state_def)
  moreover have "getPendingFlow (setPendingAuthUrl storeWithFlow 7 food
                   ''https://auth.example/authorize?state=U2'') ''U2'' = None"
    by (simp add: getPendingFlow_def setPendingAuthUrl_def storeWithFlow_def registerPendingFlow_def
        storeWithUser7_def getOrCreateSession_def newSessionStore_def Let_def)
  ultimately show ?thesis
    using getPendingFlow_storeWithFlow by blast
qed

text \<open>
  For every call of \<open>initiateAuth\<close>: the one effect is the connection attempt, its
  transport carries a provider without \<open>oauthState\<close>, and that provider's \<^verbatim>\<open>state()\<close> is
  whatever token is generated. A provider constructed with a state returns that state.
\<close>

lemma initiateAuth_provider_has_no_state:
  "\<exists>url m' st' c tr.
     initiateAuth connect m st uid svc = (url, m', st', [Connect c tr]) \<and>
     authProvider tr = newSwiggyOAuthProvider uid svc (callbackPort m) (Some (callbackHost m)) None \<and>
     provider_state (authProvider tr) uuid = uuid"
  by (auto simp: initiateAuth_def Let_def newSwiggyOAuthProvider_def provider_state_def
      split: prod.splits ConnectOutcome.splits option.splits)

lemma provider_state_supplied:
  "provider_state (newSwiggyOAuthProvider uid svc port host (Some s)) uuid = s"
  by (simp add: provider_state_def newSwiggyOAuthProvider_def)

section \<open>The callback listener\<close>

text \<open>
  Claim C8, on the version of the listener that answers with status 400: a request to
  \<^verbatim>\<open>/callback\<close> without parameters (what the server sees when the parameters come in the
  fragment of the URL) gets status 400 and a page of one heading, not the page that moves
  the fragment into the query string. No event is published.
\<close>

theorem C8_status400_serves_no_redirect_page:
  "handleRequest_status400 (exampleUrl ''/callback'' []) =
     (\<lparr>statusCode = 400, contentType = ''text/html'',
       body = ''<h1>Missing code or state parameter</h1>''\<rparr>, []) \<and>
   ''<h1>Missing code or state parameter</h1>'' \<noteq> redirectPage"
  by (simp add: handleRequest_status400_def handleCallback_status400_def searchParams_get_def
        falsyString_def redirectPage_def exampleUrl_def)

text \<open>
  The version with the fragment page does what claim C8 says, for every parsed request:
  \<^verbatim>\<open>/health\<close> gets 200 and \<open>OK\<close>; \<^verbatim>\<open>/callback\<close> with a non-empty code and a non-empty state
  publishes one event with exactly these two values and gets 200 and the confirmation
  page; \<^verbatim>\<open>/callback\<close> with a code or a state that is absent or empty publishes nothing and
  gets the page that redirects the fragment; every other path gets 404. The function
  takes the request alone: no store, and so no registry of pending flows, is read.
\<close>

theorem handleRequest_cases:
  "(pathname url = ''/health'' \<longrightarrow>
      handleRequest url = (\<lparr>statusCode = 200, contentType = ''text/plain'', body = ''OK''\<rparr>, [])) \<and>
   (pathname url = ''/callback'' \<and> searchParams_get url ''code'' = Some c \<and> c \<noteq> [] \<and>
    searchParams_get url ''state'' = Some s \<and> s \<noteq> [] \<longrightarrow>
      handleRequest url =
        (\<lparr>statusCode = 200, contentType = ''text/html'', body = confirmationPage\<rparr>,
         [Log LevelInfo ''Received OAuth callback'', Emit \<lparr>cb_code = c, cb_state = s\<rparr>])) \<and>
   (pathname url = ''/callback'' \<and>
    (falsyString (searchParams_get url ''code'') \<or> falsyString (searchParams_get url ''state'')) \<longrightarrow>
      handleRequest url = (\<lparr>statusCode = 200, contentType = ''text/html'', body = redirectPage\<rparr>, [])) \<and>
   (pathname url \<noteq> ''/health'' \<and> pathname url \<noteq> ''/callback'' \<longrightarrow>
      handleRequest url = (\<lparr>statusCode = 404, contentType = ''text/plain'', body = ''Not found''\<rparr>, []))"
  by (simp add: handleRequest_def handleCallback_def falsyString_def Let_def)

theorem handleRequest_cases_witness:
  "handleRequest (exampleUrl ''/health'' []) =
     (\<lparr>statusCode = 200, contentType = ''text/plain'', body = ''OK''\<rparr>, []) \<and>
   handleRequest (exampleUrl ''/callback'' [(''code'', ''code-1''), (''state'', ''S1'')]) =
     (\<lparr>statusCode = 200, contentType = ''text/html'', body = confirmationPage\<rparr>,
      [Log LevelInfo ''Received OAuth callback'', Emit \<lparr>cb_code = ''code-1'', cb_state = ''S1''\<rparr>]) \<and>
   handleRequest (exampleUrl ''/callback'' [(''state'', ''S1'')]) =
     (\<lparr>statusCode = 200, contentType = ''text/html'', body = redirectPage\<rparr>, []) \<and>
   handleRequest (exampleUrl ''/favicon.ico'' []) =
     (\<lparr>statusCode = 404, contentType = ''text/plain'', body = ''Not found''\<rparr>, [])"
  using handleRequest_cases [of "exampleUrl ''/health'' []"]
        handleRequest_cases
          [of "exampleUrl ''/callback'' [(''code'', ''code-1''), (''state'', ''S1'')]" "''code-1''" "''S1''"]
        handleRequest_cases [of "exampleUrl ''/callback'' [(''state'', ''S1'')]"]
        handleRequest_cases [of "exampleUrl ''/favicon.ico'' []"]
  by (simp add: exampleUrl_def searchParams_get_def falsyString_def)

section \<open>The tool invoker\<close>

text \<open>
  Claim C9: \<open>invokeWithRetry\<close> calls the tool once or twice. It calls twice exactly when
  the first call threw an error whose message is classified as transient (it contains
  \<open>timeout\<close>, \<open>ECONNRESET\<close> or \<open>503\<close>). When the first call threw another error, that
  error is the result, as a \<open>SwiggyMcpError\<close> that is not retryable. When the first call
  threw a transient error, the outcome of the second call is the result: its error if it
  threw too, its tool result if it returned. A first call that returned is the result
  without a second call.
\<close>

theorem C9_invokeWithRetry_retries_once_on_transient:
  "invokeWithRetry callTool n client svc tool args = (r, n', es) \<Longrightarrow>
     (n' = Suc n \<or> n' = Suc (Suc n)) \<and>
     callToolCount es = n' - n \<and>
     (n' = Suc (Suc n) \<longleftrightarrow>
        (\<exists>err. callTool client tool args n = CallThrew err \<and> classifyRetryable (thrownMessage err))) \<and>
     (\<forall>err. callTool client tool args n = CallThrew err \<and> \<not> classifyRetryable (thrownMessage err) \<longrightarrow>
        r = Inl \<lparr>err_message = thrownMessage err, err_service = svc, err_toolName = Some tool,
                 isRetryable = False\<rparr>) \<and>
     (\<forall>err err2. callTool client tool args n = CallThrew err \<and> classifyRetryable (thrownMessage err) \<and>
                 callTool client tool args (Suc n) = CallThrew err2 \<longrightarrow>
        r = Inl \<lparr>err_message = thrownMessage err2, err_service = svc, err_toolName = Some tool,
                 isRetryable = classifyRetryable (thrownMessage err2)\<rparr>) \<and>
     (\<forall>err res. callTool client tool args n = CallThrew err \<and> classifyRetryable (thrownMessage err) \<and>
                callTool client tool args (Suc n) = CallReturned res \<longrightarrow>
        r = Inr \<lparr>tcr_service = svc, tcr_toolName = tool,
                 tcr_content = (case result_content res of None \<Rightarrow> [] | Some c \<Rightarrow> c),
                 tcr_isError = (result_isError res = Some True)\<rparr>) \<and>
     (\<forall>res. callTool client tool args n = CallReturned res \<longrightarrow>
        r = Inr \<lparr>tcr_service = svc, tcr_toolName = tool,
                 tcr_content = (case result_content res of None \<Rightarrow> [] | Some c \<Rightarrow> c),
                 tcr_isError = (result_isError res = Some True)\<rparr>)"
proof (cases "callTool client tool args n")
  case (CallReturned res)
  assume a: "invokeWithRetry callTool n client svc tool args = (r, n', es)"
  from CallReturned a show ?thesis
    by (auto simp: invokeWithRetry_def invoke_def callToolCount_def Let_def)
next
  case (CallThrew err)
  assume a: "invokeWithRetry callTool n client svc tool args = (r, n', es)"
  show ?thesis
  proof (cases "classifyRetryable (thrownMessage err)")
    case False
    with CallThrew a show ?thesis
      by (auto simp: invokeWithRetry_def invoke_def callToolCount_def Let_def)
  next
    case True
    with CallThrew a show ?thesis
      by (cases "callTool client tool args (Suc n)")
         (auto simp: invokeWithRetry_def invoke_def callToolCount_def Let_def)
  qed
qed

lemma classifyRetryable_examples:
  "classifyRetryable ''Request timeout''"
  "classifyRetryable ''HTTP 503''"
  "\<not> classifyRetryable ''Invalid params''"
  by (simp_all add: classifyRetryable_def)

theorem C9_invokeWithRetry_witness:
  "fst (invokeWithRetry callToolRejects 0 4 food ''search'' []) =
     Inl \<lparr>err_message = ''Invalid params'', err_service = food, err_toolName = Some ''search'',
          isRetryable = False\<rparr> \<and>
   fst (snd (invokeWithRetry callToolRejects 0 4 food ''search'' [])) = 1 \<and>
   fst (invokeWithRetry callToolUnavailable 0 4 food ''search'' []) =
     Inl \<lparr>err_message = ''HTTP 503'', err_service = food, err_toolName = Some ''search'',
          isRetryable = True\<rparr> \<and>
   fst (snd (invokeWithRetry callToolUnavailable 0 4 food ''search'' [])) = 2 \<and>
   callToolCount (snd (snd (invokeWithRetry callToolUnavailable 0 4 food ''search'' []))) = 2 \<and>
   fst (invokeWithRetry callToolTimeoutOnce 0 4 food ''search'' []) =
     Inr \<lparr>tcr_service = food, tcr_toolName = ''search'', tcr_content = [], tcr_isError = False\<rparr> \<and>
   fst (snd (invokeWithRetry callToolTimeoutOnce 0 4 food ''search'' [])) = 2"
proof -
  obtain r1 k1 es1 where e1: "invokeWithRetry callToolRejects 0 4 food ''search'' [] = (r1, k1, es1)"
    by (cases "invokeWithRetry callToolRejects 0 4 food ''search'' []") auto
  obtain r2 k2 es2 where e2: "invokeWithRetry callToolUnavailable 0 4 food ''search'' [] = (r2, k2, es2)"
    by (cases "invokeWithRetry callToolUnavailable 0 4 food ''search'' []") auto
  obtain r3 k3 es3 where e3: "invokeWithRetry callToolTimeoutOnce 0 4 food ''search'' [] = (r3, k3, es3)"
    by (cases "invokeWithRetry callToolTimeoutOnce 0 4 food ''search'' []") auto
  have t1: "callToolRejects 4 ''search'' [] 0 = CallThrew (ErrorObject ''Invalid params'')"
    by (simp add: callToolRejects_def)
  have t2: "callToolUnavailable 4 ''search'' [] k = CallThrew (ErrorObject ''HTTP 503'')" for k
    by (simp add: callToolUnavailable_def)
  have t3: "callToolTimeoutOnce 4 ''search'' [] 0 = CallThrew (ErrorObject ''Request timeout'')"
    "callToolTimeoutOnce 4 ''search'' [] (Suc 0) = CallReturned exampleResult"
    by (simp_all add: callToolTimeoutOnce_def)
  have m: "thrownMessage (ErrorObject x) = x" for x
    by (simp add: thrownMessage_def)
  from C9_invokeWithRetry_retries_once_on_transient [OF e1] t1 classifyRetryable_examples
  have "r1 = Inl \<lparr>err_message = ''Invalid params'', err_service = food, err_toolName = Some ''search'',
          isRetryable = False\<rparr>" "k1 = 1"
    by (auto simp: m)
  moreover
  from C9_invokeWithRetry_retries_once_on_transient [OF e2] t2 classifyRetryable_examples
  have "r2 = Inl \<lparr>err_message = ''HTTP 503'', err_service = food, err_toolName = Some ''search'',
          isRetryable = True\<rparr>" "k2 = 2" "callToolCount es2 = 2"
    by (auto simp: m)
  moreover
  from C9_invokeWithRetry_retries_once_on_transient [OF e3] t3 classifyRetryable_examples
  have "r3 = Inr \<lparr>tcr_service = food, tcr_toolName = ''search'', tcr_content = [], tcr_isError = False\<rparr>"
    "k3 = 2"
    by (auto simp: m exampleResult_def)
  ultimately show ?thesis
    by (simp add: e1 e2 e3)
qed

end
